theory Spec2Isabelle
  imports
    Complex_Main
    "HOL-Library.Char_ord"
    "HOL-Library.List_Lexorder"
    "HOL-Library.Product_Lexorder"
    "HOL-Library.Multiset"
begin

section \<open>The table\<close>

text \<open>
  \<^verbatim>\<open>app.py\<close> is a script over a pandas DataFrame. A cell of the table is a number, a
  string, some other value (a time stamp, a duration, a boolean, a time of day; kept
  as its printed form) or missing (NaN, NaT, an empty spreadsheet cell). Every column
  carries the dtype pandas inferred for it. The cells of an \<^verbatim>\<open>int64\<close> column are whole
  numbers of the signed 64-bit range.
\<close>

datatype cell = Num real | Str string | Other string | Missing

datatype dtype = Int64 | Float64 | Timedelta64 | Object | Bool | Datetime64

text \<open>A column label is the header cell: usually a string, an integer when the header
  cell holds a number.\<close>

datatype label = LStr string | LInt int

type_synonym row = "label \<Rightarrow> cell"

record dataframe =
  columns :: "(label \<times> dtype) list"
  rows :: "row list"

text \<open>\<^verbatim>\<open>len(df)\<close>, \<^verbatim>\<open>df.head(n)\<close>, \<^verbatim>\<open>df[col]\<close> and the dtype of a column.\<close>

definition len :: "dataframe \<Rightarrow> nat" where
  "len df = length (rows df)"

definition head :: "nat \<Rightarrow> dataframe \<Rightarrow> dataframe" where
  "head n df = df\<lparr>rows := take n (rows df)\<rparr>"

definition series :: "dataframe \<Rightarrow> label \<Rightarrow> cell list" where
  "series df col = map (\<lambda>r. r col) (rows df)"

definition dtype_of :: "dataframe \<Rightarrow> label \<Rightarrow> dtype" where
  "dtype_of df col = (case map_of (columns df) col of Some t \<Rightarrow> t | None \<Rightarrow> Object)"

text \<open>\<^verbatim>\<open>df.select_dtypes(include=...)\<close> keeps the columns whose dtype is included, in
  table order; \<^verbatim>\<open>.columns.tolist()\<close> lists their labels. \<^verbatim>\<open>np.number\<close> covers the
  integer and floating dtypes and, \<^verbatim>\<open>timedelta64\<close> being a subclass of NumPy's signed
  integers, the durations; \<^verbatim>\<open>'object'\<close> covers the object dtype.\<close>

definition select_dtypes :: "(dtype \<Rightarrow> bool) \<Rightarrow> dataframe \<Rightarrow> dataframe" where
  "select_dtypes include df = df\<lparr>columns := filter (\<lambda>ct. include (snd ct)) (columns df)\<rparr>"

definition columns_tolist :: "dataframe \<Rightarrow> label list" where
  "columns_tolist df = map fst (columns df)"

fun np_number :: "dtype \<Rightarrow> bool" where
  "np_number Int64 = True"
| "np_number Float64 = True"
| "np_number Timedelta64 = True"
| "np_number _ = False"

fun object_dtype :: "dtype \<Rightarrow> bool" where
  "object_dtype Object = True"
| "object_dtype _ = False"

definition numeric_columns :: "dataframe \<Rightarrow> label list" where
  "numeric_columns df = columns_tolist (select_dtypes np_number df)"

definition categorical_cols :: "dataframe \<Rightarrow> label list" where
  "categorical_cols df = columns_tolist (select_dtypes object_dtype df)"

text \<open>\<^verbatim>\<open>df[labels]\<close> with a list of labels: the named columns, in the order of the list.\<close>

definition getitem_columns :: "dataframe \<Rightarrow> label list \<Rightarrow> dataframe" where
  "getitem_columns df ls =
     df\<lparr>columns := concat (map (\<lambda>l. filter (\<lambda>ct. fst ct = l) (columns df)) ls)\<rparr>"


section \<open>What the libraries decide\<close>

text \<open>An exception is of class \<^verbatim>\<open>Exception\<close> or lies outside it (an interrupt, an
  interpreter exit, the framework's own control-flow exceptions); it carries its
  message.\<close>

datatype exn = Exception string | BaseException string

fun str :: "exn \<Rightarrow> string" where
  "str (Exception msg) = msg"
| "str (BaseException msg) = msg"

text \<open>A 64-bit floating-point result: a finite number, an infinity or NaN.\<close>

datatype fval = Finite real | PosInf | NegInf | NaN

text \<open>A figure is what a chart builder hands to the plotting library: the chart kind,
  the data and the chosen columns (titles, colours and bin counts are constants of
  the source and left out).\<close>

datatype fig =
    BarFig dataframe label
  | LineFig dataframe label
  | HistFig dataframe label
  | PieFig "(cell \<times> fval) list" label label

text \<open>
  What the script does not decide is a parameter of the run:
  \<^item> the uploaded file and how \<^verbatim>\<open>pd.read_excel\<close> parses it;
  \<^item> whether showing the preview (line 72), computing and showing a KPI card (lines
    106 to 112), building and plotting a figure (the calls of a chart builder and
    \<^verbatim>\<open>st.plotly_chart\<close>) or computing and showing the summary (line 159) raises;
  \<^item> every floating-point result of pandas: the sum of a column that is not
    \<^verbatim>\<open>int64\<close>, the mean of a column, the sum of a group of such a column and the
    statistics of \<^verbatim>\<open>describe()\<close>. Rounding and the order of the operations are the
    library's, so the model takes the results as given, as functions of the dtype and
    the cells in table order;
  \<^item> what the user has chosen in the widgets.
\<close>

type_synonym upload = string

record session =
  uploaded_file :: "upload option"
  read_excel :: "upload \<Rightarrow> exn + dataframe"
  preview_raises :: "dataframe \<Rightarrow> exn option"
  metric_raises :: "dataframe \<Rightarrow> label \<Rightarrow> exn option"
  px_raises :: "fig \<Rightarrow> exn option"
  summary_raises :: "dataframe \<Rightarrow> exn option"
  float_sum :: "dtype \<Rightarrow> cell list \<Rightarrow> fval"
  float_mean :: "dtype \<Rightarrow> cell list \<Rightarrow> fval"
  float_group_sum :: "dtype \<Rightarrow> cell list \<Rightarrow> fval"
  float_stat :: "string \<Rightarrow> dtype \<Rightarrow> cell list \<Rightarrow> fval"
  kpi_choice :: "label list option"
  bar_choice :: nat
  line_choice :: nat
  hist_choice :: nat
  pie_cat_choice :: nat
  pie_val_choice :: nat


section \<open>Aggregation\<close>

text \<open>The numbers of a column, the other cells skipped.\<close>

fun numeric_values :: "cell list \<Rightarrow> real list" where
  "numeric_values [] = []"
| "numeric_values (Num x # cs) = x # numeric_values cs"
| "numeric_values (_ # cs) = numeric_values cs"

text \<open>The sum of an \<^verbatim>\<open>int64\<close> column is computed in \<^verbatim>\<open>int64\<close>: it wraps around
  modulo \<open>2^64\<close> into the signed range.\<close>

definition wrap64 :: "int \<Rightarrow> int" where
  "wrap64 i = (i + 2 ^ 63) mod 2 ^ 64 - 2 ^ 63"

definition int64_sum :: "cell list \<Rightarrow> int" where
  "int64_sum cs = fold (\<lambda>x acc. wrap64 (acc + \<lfloor>x\<rfloor>)) (numeric_values cs) 0"

text \<open>\<^verbatim>\<open>Series.sum()\<close> and \<^verbatim>\<open>Series.mean()\<close> of a column of the given dtype. The mean
  is a floating-point result also for an \<^verbatim>\<open>int64\<close> column.\<close>

definition series_sum :: "session \<Rightarrow> dtype \<Rightarrow> cell list \<Rightarrow> fval" where
  "series_sum S t cs =
     (if t = Int64 then Finite (of_int (int64_sum cs)) else float_sum S t cs)"

definition series_mean :: "session \<Rightarrow> dtype \<Rightarrow> cell list \<Rightarrow> fval" where
  "series_mean S t cs = float_mean S t cs"

text \<open>\<^verbatim>\<open>DataFrame.describe()\<close>: a table whose index is the eight statistics and which
  has one column per column of the frame; its entries are floating-point results.\<close>

record summary =
  stat_index :: "string list"
  stat_columns :: "(label \<times> fval list) list"

definition describe_series :: "session \<Rightarrow> dtype \<Rightarrow> cell list \<Rightarrow> fval list" where
  "describe_series S t cs =
     map (\<lambda>name. float_stat S name t cs)
       [''count'', ''mean'', ''std'', ''min'', ''25%'', ''50%'', ''75%'', ''max'']"

definition describe :: "session \<Rightarrow> dataframe \<Rightarrow> summary" where
  "describe S df =
     \<lparr>stat_index = [''count'', ''mean'', ''std'', ''min'', ''25%'', ''50%'', ''75%'', ''max''],
      stat_columns =
        map (\<lambda>ct. (fst ct, describe_series S (snd ct) (series df (fst ct)))) (columns df)\<rparr>"

text \<open>\<^verbatim>\<open>df.groupby(cat_col)[val_col].sum().reset_index()\<close>. With pandas' defaults
  (\<^verbatim>\<open>sort=True\<close>, \<^verbatim>\<open>dropna=True\<close>) the rows whose key is missing are dropped and the
  groups come out in ascending key order: numbers by value, then other values by
  their printed form, then text. The sum of a group of an \<^verbatim>\<open>int64\<close> column wraps
  around like the sum of the column.\<close>

fun key_rank :: "cell \<Rightarrow> nat \<times> real \<times> string" where
  "key_rank (Num x) = (0, x, [])"
| "key_rank (Other s) = (1, 0, s)"
| "key_rank (Str s) = (2, 0, s)"
| "key_rank Missing = (3, 0, [])"

definition group_keys :: "dataframe \<Rightarrow> label \<Rightarrow> cell list" where
  "group_keys df cat_col =
     sort_key key_rank (remdups (filter (\<lambda>c. c \<noteq> Missing) (series df cat_col)))"

definition group_sum :: "session \<Rightarrow> dtype \<Rightarrow> cell list \<Rightarrow> fval" where
  "group_sum S t cs =
     (if t = Int64 then Finite (of_int (int64_sum cs)) else float_group_sum S t cs)"

definition groupby_sum :: "session \<Rightarrow> dataframe \<Rightarrow> label \<Rightarrow> label \<Rightarrow> (cell \<times> fval) list" where
  "groupby_sum S df cat_col val_col =
     map (\<lambda>k. (k, group_sum S (dtype_of df val_col)
                   (series (df\<lparr>rows := filter (\<lambda>r. r cat_col = k) (rows df)\<rparr>) val_col)))
       (group_keys df cat_col)"

text \<open>\<^verbatim>\<open>pie_data.nlargest(n, val_col)\<close> (\<^verbatim>\<open>keep='first'\<close>): the first \<open>n\<close> rows in
  descending order of the value, rows of equal value in the order of the frame, NaN
  last.\<close>

fun desc_rank :: "fval \<Rightarrow> nat \<times> real" where
  "desc_rank PosInf = (0, 0)"
| "desc_rank (Finite x) = (1, - x)"
| "desc_rank NegInf = (2, 0)"
| "desc_rank NaN = (3, 0)"

definition nlargest :: "nat \<Rightarrow> (cell \<times> fval) list \<Rightarrow> (cell \<times> fval) list" where
  "nlargest n pie_data = take n (sort_key (\<lambda>kv. desc_rank (snd kv)) pie_data)"


section \<open>The chart builders\<close>

definition load_excel_data :: "session \<Rightarrow> upload \<Rightarrow> exn + dataframe" where
  "load_excel_data S uploaded = read_excel S uploaded"

definition px :: "session \<Rightarrow> fig \<Rightarrow> exn + fig" where
  "px S f = (case px_raises S f of Some e \<Rightarrow> Inl e | None \<Rightarrow> Inr f)"

definition create_bar_chart :: "session \<Rightarrow> dataframe \<Rightarrow> label \<Rightarrow> nat \<Rightarrow> exn + fig" where
  "create_bar_chart S df column limit = (let data = head limit df in px S (BarFig data column))"

definition create_line_chart :: "session \<Rightarrow> dataframe \<Rightarrow> label \<Rightarrow> nat \<Rightarrow> exn + fig" where
  "create_line_chart S df column limit = (let data = head limit df in px S (LineFig data column))"

definition create_histogram :: "session \<Rightarrow> dataframe \<Rightarrow> label \<Rightarrow> exn + fig" where
  "create_histogram S df column = px S (HistFig df column)"

definition create_pie_chart :: "session \<Rightarrow> dataframe \<Rightarrow> label \<Rightarrow> label \<Rightarrow> exn + fig" where
  "create_pie_chart S df cat_col val_col =
     (let pie_data = groupby_sum S df cat_col val_col;
          pie_data = nlargest 10 pie_data
      in px S (PieFig pie_data cat_col val_col))"

text \<open>The bars of a bar figure: \<^verbatim>\<open>px.bar(data, y=column)\<close> draws one bar per row of
  \<open>data\<close>, its height the row's cell in \<open>column\<close>.\<close>

fun bars :: "fig \<Rightarrow> cell list" where
  "bars (BarFig data column) = series data column"
| "bars _ = []"


section \<open>The page\<close>

text \<open>What a run of the script puts on the page, in order. Layout containers
  (\<^verbatim>\<open>st.columns\<close>, \<^verbatim>\<open>st.expander\<close>) only place elements and are left out; a KPI
  card holds the total and the average before formatting.\<close>

datatype element =
    Title
  | Intro
  | FileUploader
  | WarningLarge nat
  | Success nat nat
  | DataPreview dataframe
  | Metric string nat
  | Subheader string
  | Multiselect "label list" "label list"
  | KpiCard label fval fval
  | Selectbox string "label list"
  | PlotlyChart fig
  | SummaryTable summary
  | WarningNoNumeric
  | ErrorMsg string
  | InfoFormat
  | InfoUpload
  | Instructions

text \<open>A stretch of the script leaves the elements it has shown and, when it was cut
  short, the exception that did so.\<close>

type_synonym outcome = "element list \<times> exn option"

definition emit :: "element list \<Rightarrow> outcome" where
  "emit es = (es, None)"

definition raise :: "exn \<Rightarrow> outcome" where
  "raise e = ([], Some e)"

definition seq :: "outcome \<Rightarrow> outcome \<Rightarrow> outcome" where
  "seq p q = (case snd p of Some e \<Rightarrow> p | None \<Rightarrow> (fst p @ fst q, snd q))"

fun seqs :: "outcome list \<Rightarrow> outcome" where
  "seqs [] = emit []"
| "seqs (p # ps) = seq p (seqs ps)"

definition plotly_chart :: "exn + fig \<Rightarrow> outcome" where
  "plotly_chart r = (case r of Inl e \<Rightarrow> raise e | Inr f \<Rightarrow> emit [PlotlyChart f])"

text \<open>Python truthiness of a label (\<^verbatim>\<open>if bar_col:\<close>) and the widgets. A select box
  returns the chosen option, the first one when the stored choice is out of range and
  \<^verbatim>\<open>None\<close> when there is no option; a multiselect returns the default until the
  user chooses, and then the chosen options.\<close>

fun truthy :: "label \<Rightarrow> bool" where
  "truthy (LStr s) = (s \<noteq> [])"
| "truthy (LInt i) = (i \<noteq> 0)"

definition selectbox :: "label list \<Rightarrow> nat \<Rightarrow> label option" where
  "selectbox options i =
     (if options = [] then None
      else if i < length options then Some (options ! i) else Some (options ! 0))"

definition multiselect :: "label list \<Rightarrow> label list \<Rightarrow> label list option \<Rightarrow> label list" where
  "multiselect options dflt choice =
     (case choice of None \<Rightarrow> dflt | Some chosen \<Rightarrow> filter (\<lambda>c. c \<in> set options) chosen)"

text \<open>The KPI cards (lines 92 to 112 of \<^verbatim>\<open>app.py\<close>). The loop shows the cards one
  after the other and stops at the first one that raises.\<close>

definition kpi_card :: "session \<Rightarrow> dataframe \<Rightarrow> label \<Rightarrow> element" where
  "kpi_card S df col =
     (let total_value = series_sum S (dtype_of df col) (series df col);
          avg_value = series_mean S (dtype_of df col) (series df col)
      in KpiCard col total_value avg_value)"

definition show_kpi :: "session \<Rightarrow> dataframe \<Rightarrow> label \<Rightarrow> outcome" where
  "show_kpi S df col =
     (case metric_raises S df col of Some e \<Rightarrow> raise e | None \<Rightarrow> emit [kpi_card S df col])"

definition kpi_cards :: "session \<Rightarrow> dataframe \<Rightarrow> label list \<Rightarrow> outcome" where
  "kpi_cards S df numeric_cols =
     (let dflt = (if length numeric_cols \<ge> 4 then take 4 numeric_cols else numeric_cols);
          selected_kpi_cols = multiselect numeric_cols dflt (kpi_choice S)
      in seq (emit [Subheader ''Key Performance Indicators'', Multiselect numeric_cols dflt])
           (if selected_kpi_cols \<noteq> [] then seqs (map (show_kpi S df) selected_kpi_cols)
            else emit []))"

text \<open>The four chart panels (lines 115 to 155).\<close>

definition bar_panel :: "session \<Rightarrow> dataframe \<Rightarrow> label list \<Rightarrow> outcome" where
  "bar_panel S df numeric_cols =
     (if length numeric_cols \<ge> 1 then
        seq (emit [Selectbox ''bar'' numeric_cols])
          (case selectbox numeric_cols (bar_choice S) of
             None \<Rightarrow> emit []
           | Some bar_col \<Rightarrow>
               if truthy bar_col then plotly_chart (create_bar_chart S df bar_col 20)
               else emit [])
      else emit [])"

definition line_panel :: "session \<Rightarrow> dataframe \<Rightarrow> label list \<Rightarrow> outcome" where
  "line_panel S df numeric_cols =
     (if length numeric_cols \<ge> 1 then
        seq (emit [Selectbox ''line'' numeric_cols])
          (case selectbox numeric_cols (line_choice S) of
             None \<Rightarrow> emit []
           | Some line_col \<Rightarrow>
               if truthy line_col then plotly_chart (create_line_chart S df line_col 50)
               else emit [])
      else emit [])"

definition hist_panel :: "session \<Rightarrow> dataframe \<Rightarrow> label list \<Rightarrow> outcome" where
  "hist_panel S df numeric_cols =
     (if length numeric_cols \<ge> 1 then
        seq (emit [Selectbox ''hist'' numeric_cols])
          (case selectbox numeric_cols (hist_choice S) of
             None \<Rightarrow> emit []
           | Some hist_col \<Rightarrow>
               if truthy hist_col then plotly_chart (create_histogram S df hist_col)
               else emit [])
      else emit [])"

definition pie_panel :: "session \<Rightarrow> dataframe \<Rightarrow> label list \<Rightarrow> outcome" where
  "pie_panel S df numeric_cols =
     (let cat_cols = categorical_cols df
      in if length cat_cols > 0 \<and> length numeric_cols > 0 then
           seq (emit [Selectbox ''pie_cat'' cat_cols, Selectbox ''pie_val'' numeric_cols])
             (case (selectbox cat_cols (pie_cat_choice S),
                    selectbox numeric_cols (pie_val_choice S)) of
                (Some cat_col, Some val_col) \<Rightarrow>
                  if truthy cat_col \<and> truthy val_col
                  then plotly_chart (create_pie_chart S df cat_col val_col)
                  else emit []
              | _ \<Rightarrow> emit [])
         else emit [])"

text \<open>The summary (lines 158 and 159): the heading, then
  \<^verbatim>\<open>st.dataframe(df[numeric_columns].describe())\<close>, which may raise.\<close>

definition summary_statistics :: "session \<Rightarrow> dataframe \<Rightarrow> label list \<Rightarrow> summary" where
  "summary_statistics S df numeric_cols = describe S (getitem_columns df numeric_cols)"

definition summary_panel :: "session \<Rightarrow> dataframe \<Rightarrow> label list \<Rightarrow> outcome" where
  "summary_panel S df numeric_cols =
     seq (emit [Subheader ''Summary Statistics''])
       (case summary_raises S (getitem_columns df numeric_cols) of
          Some e \<Rightarrow> raise e
        | None \<Rightarrow> emit [SummaryTable (summary_statistics S df numeric_cols)])"

text \<open>The branch on the numeric columns (lines 88 to 162).\<close>

definition dashboard :: "session \<Rightarrow> dataframe \<Rightarrow> outcome" where
  "dashboard S df =
     (let numeric_cols = numeric_columns df
      in if length numeric_cols > 0 then
           seq (kpi_cards S df numeric_cols)
          (seq (emit [Subheader ''Visualizations''])
          (seq (bar_panel S df numeric_cols)
          (seq (line_panel S df numeric_cols)
          (seq (hist_panel S df numeric_cols)
          (seq (pie_panel S df numeric_cols)
               (summary_panel S df numeric_cols))))))
         else emit [WarningNoNumeric])"

text \<open>The row ceiling (lines 64 to 66) and the file information (lines 68 to 85): the
  success message, the preview \<^verbatim>\<open>st.dataframe(df.head(10))\<close>, which may raise, the
  three metrics and the heading.\<close>

definition limit_rows :: "dataframe \<Rightarrow> element list \<times> dataframe" where
  "limit_rows df =
     (if len df > 10000 then ([WarningLarge (len df)], head 10000 df) else ([], df))"

definition preview :: "session \<Rightarrow> dataframe \<Rightarrow> outcome" where
  "preview S df =
     (case preview_raises S (head 10 df) of
        Some e \<Rightarrow> raise e
      | None \<Rightarrow> emit [DataPreview (head 10 df)])"

definition file_info :: "session \<Rightarrow> dataframe \<Rightarrow> outcome" where
  "file_info S df =
     seq (emit [Success (len df) (length (columns df))])
    (seq (preview S df)
         (emit [Metric ''Total Rows'' (len df),
                Metric ''Total Columns'' (length (columns df)),
                Metric ''Numeric Columns'' (length (columns (select_dtypes np_number df))),
                Subheader ''Configure Your KPIs'']))"

text \<open>The body of the \<^verbatim>\<open>try\<close> statement (lines 60 to 162).\<close>

definition try_body :: "session \<Rightarrow> upload \<Rightarrow> outcome" where
  "try_body S uploaded =
     (case load_excel_data S uploaded of
        Inl e \<Rightarrow> raise e
      | Inr loaded \<Rightarrow>
          (let (advisory, df) = limit_rows loaded
           in seq (emit advisory) (seq (file_info S df) (dashboard S df))))"

text \<open>The handler \<^verbatim>\<open>except Exception as e\<close> of lines 164 to 166 catches the
  exceptions of class \<^verbatim>\<open>Exception\<close> and shows the message and the hint; any other
  exception passes through it and leaves the script.\<close>

definition handler :: "outcome \<Rightarrow> element list \<times> exn option" where
  "handler p =
     (case snd p of
        None \<Rightarrow> (fst p, None)
      | Some (Exception msg) \<Rightarrow> (fst p @ [ErrorMsg (str (Exception msg)), InfoFormat], None)
      | Some (BaseException msg) \<Rightarrow> (fst p, Some (BaseException msg)))"

text \<open>One run of the script: the page it leaves and the exception that left the
  script, if any.\<close>

definition script :: "session \<Rightarrow> element list \<times> exn option" where
  "script S =
     (case uploaded_file S of
        Some uploaded \<Rightarrow>
          ([Title, Intro, FileUploader] @ fst (handler (try_body S uploaded)),
           snd (handler (try_body S uploaded)))
      | None \<Rightarrow> ([Title, Intro, FileUploader, InfoUpload, Instructions], None))"

definition app :: "session \<Rightarrow> element list" where
  "app S = fst (script S)"

definition escaped :: "session \<Rightarrow> exn option" where
  "escaped S = snd (script S)"


section \<open>Notions for stating the properties\<close>

text \<open>The whole number in a cell of an integer column, for stating sums over cells.\<close>

definition cell_int :: "cell \<Rightarrow> int" where
  "cell_int c = (case c of Num x \<Rightarrow> \<lfloor>x\<rfloor> | _ \<Rightarrow> 0)"



text \<open>The slices of a pie figure: one per row of \<open>pie_data\<close>.\<close>

fun slices :: "fig \<Rightarrow> (cell \<times> fval) list" where
  "slices (PieFig pie_data cat_col val_col) = pie_data"
| "slices _ = []"

text \<open>The sum of the group of a key, as the group-by computes it.\<close>

definition group_total :: "session \<Rightarrow> dataframe \<Rightarrow> label \<Rightarrow> label \<Rightarrow> cell \<Rightarrow> fval" where
  "group_total S df cat_col val_col k =
     group_sum S (dtype_of df val_col)
       (map (\<lambda>r. r val_col) (filter (\<lambda>r. r cat_col = k) (rows df)))"

text \<open>The pie aggregation as the spec words it: the groups in the order in which the
  table first shows their category, each with its sum, and of these the ten with the
  largest sums, a tie going to the group met first.\<close>

definition encounter_keys :: "dataframe \<Rightarrow> label \<Rightarrow> cell list" where
  "encounter_keys df cat_col =
     rev (remdups (rev (filter (\<lambda>c. c \<noteq> Missing) (series df cat_col))))"

definition pie_by_encounter ::
  "session \<Rightarrow> dataframe \<Rightarrow> label \<Rightarrow> label \<Rightarrow> (cell \<times> fval) list" where
  "pie_by_encounter S df cat_col val_col =
     take 10 (sort_key (\<lambda>kv. desc_rank (snd kv))
       (map (\<lambda>k. (k, group_total S df cat_col val_col k)) (encounter_keys df cat_col)))"

text \<open>The ranking of the groups: a larger sum comes first, and of two equal sums the
  one whose key comes first in the order of the group-by result.\<close>

definition pie_before :: "cell \<times> fval \<Rightarrow> cell \<times> fval \<Rightarrow> bool" where
  "pie_before a b \<longleftrightarrow>
     desc_rank (snd a) < desc_rank (snd b)
     \<or> (desc_rank (snd a) = desc_rank (snd b) \<and> key_rank (fst a) < key_rank (fst b))"

text \<open>The elements of the KPI, chart and summary sections, widgets included.\<close>

fun analysis_element :: "element \<Rightarrow> bool" where
  "analysis_element (Multiselect options dflt) = True"
| "analysis_element (KpiCard col total_value avg_value) = True"
| "analysis_element (Selectbox key options) = True"
| "analysis_element (PlotlyChart f) = True"
| "analysis_element (SummaryTable t) = True"
| "analysis_element (Subheader s) =
     (s = ''Key Performance Indicators'' \<or> s = ''Visualizations'' \<or> s = ''Summary Statistics'')"
| "analysis_element _ = False"

text \<open>A figure's columns match the table when the value column is one of the table's
  numeric columns and, for a pie, the category column one of its object columns.\<close>

fun fig_columns_match :: "dataframe \<Rightarrow> fig \<Rightarrow> bool" where
  "fig_columns_match df (BarFig data column) = (column \<in> set (numeric_columns df))"
| "fig_columns_match df (LineFig data column) = (column \<in> set (numeric_columns df))"
| "fig_columns_match df (HistFig data column) = (column \<in> set (numeric_columns df))"
| "fig_columns_match df (PieFig pie_data cat_col val_col) =
     (cat_col \<in> set (categorical_cols df) \<and> val_col \<in> set (numeric_columns df))"

fun chart_matches :: "dataframe \<Rightarrow> element \<Rightarrow> bool" where
  "chart_matches df (PlotlyChart f) = fig_columns_match df f"
| "chart_matches df _ = True"

text \<open>An element offers a column when the column is an option of a widget, the label
  of a KPI card, a column of a figure or a column of the summary table.\<close>

fun fig_uses :: "fig \<Rightarrow> label \<Rightarrow> bool" where
  "fig_uses (BarFig data column) c = (c = column)"
| "fig_uses (LineFig data column) c = (c = column)"
| "fig_uses (HistFig data column) c = (c = column)"
| "fig_uses (PieFig pie_data cat_col val_col) c = (c = cat_col \<or> c = val_col)"

fun offers :: "element \<Rightarrow> label \<Rightarrow> bool" where
  "offers (Multiselect options dflt) c = (c \<in> set options \<or> c \<in> set dflt)"
| "offers (KpiCard col total_value avg_value) c = (c = col)"
| "offers (Selectbox key options) c = (c \<in> set options)"
| "offers (PlotlyChart f) c = fig_uses f c"
| "offers (SummaryTable t) c = (c \<in> set (map fst (stat_columns t)))"
| "offers _ c = False"


section \<open>Concrete tables and sessions\<close>

text \<open>A table of 10,001 rows with one integer column.\<close>

definition long_table :: dataframe where
  "long_table = \<lparr>columns = [(LStr ''units'', Int64)], rows = replicate 10001 (\<lambda>_. Num 1)\<rparr>"

text \<open>A small table with one text and one floating-point column, one numeric cell
  missing.\<close>

definition sales_row :: "string \<Rightarrow> cell \<Rightarrow> row" where
  "sales_row region units =
     (\<lambda>l. if l = LStr ''region'' then Str region else if l = LStr ''units'' then units else Missing)"

definition sales_table :: dataframe where
  "sales_table =
     \<lparr>columns = [(LStr ''region'', Object), (LStr ''units'', Float64)],
      rows = [sales_row ''north'' (Num 10), sales_row ''south'' Missing, sales_row ''north'' (Num 20)]\<rparr>"

text \<open>The sales table with a date column added.\<close>

definition dated_table :: dataframe where
  "dated_table = sales_table\<lparr>columns := columns sales_table @ [(LStr ''day'', Datetime64)]\<rparr>"




text \<open>Eleven regions with one row and the same value each; the region met first is
  the last in alphabetical order.\<close>

definition tie_table :: dataframe where
  "tie_table =
     \<lparr>columns = [(LStr ''region'', Object), (LStr ''units'', Int64)],
      rows = map (\<lambda>s. sales_row s (Num 1))
               [''k'', ''a'', ''b'', ''c'', ''d'', ''e'', ''f'', ''g'', ''h'', ''i'', ''j'']\<rparr>"

text \<open>A table without a numeric column: text and dates.\<close>

definition roster_row :: "string \<Rightarrow> cell \<Rightarrow> row" where
  "roster_row name joined =
     (\<lambda>l. if l = LStr ''name'' then Str name else if l = LStr ''joined'' then joined else Missing)"

definition roster_table :: dataframe where
  "roster_table =
     \<lparr>columns = [(LStr ''name'', Object), (LStr ''joined'', Datetime64)],
      rows = [roster_row ''ada'' (Other ''2024-01-05 00:00:00''), roster_row ''bob'' Missing]\<rparr>"

text \<open>A table whose only column holds an integer too large for 64 bits, which pandas
  keeps as an object column.\<close>

definition big_table :: dataframe where
  "big_table =
     \<lparr>columns = [(LStr ''id'', Object)],
      rows = [(\<lambda>l. if l = LStr ''id'' then Num 18446744073709551616 else Missing)]\<rparr>"

text \<open>A table with a column of durations, which pandas reads as \<^verbatim>\<open>timedelta64\<close>.\<close>

definition shift_row :: "string \<Rightarrow> string \<Rightarrow> row" where
  "shift_row crew shift =
     (\<lambda>l. if l = LStr ''crew'' then Str crew else if l = LStr ''shift'' then Other shift else Missing)"

definition shift_table :: dataframe where
  "shift_table =
     \<lparr>columns = [(LStr ''crew'', Object), (LStr ''shift'', Timedelta64)],
      rows = [shift_row ''day'' ''0 days 08:00:00'', shift_row ''night'' ''0 days 10:30:00'']\<rparr>"

text \<open>A library whose floating-point results carry no rounding error: the sum and the
  mean of the numbers of the column, their count, minimum and maximum, and NaN for
  the statistics it does not compute.\<close>

definition exact_sum :: "dtype \<Rightarrow> cell list \<Rightarrow> fval" where
  "exact_sum t cs = Finite (sum_list (numeric_values cs))"

definition exact_mean :: "dtype \<Rightarrow> cell list \<Rightarrow> fval" where
  "exact_mean t cs =
     (if numeric_values cs = [] then NaN
      else Finite (sum_list (numeric_values cs) / real (length (numeric_values cs))))"

definition exact_stat :: "string \<Rightarrow> dtype \<Rightarrow> cell list \<Rightarrow> fval" where
  "exact_stat name t cs =
     (if name = ''count'' then Finite (real (length (numeric_values cs)))
      else if numeric_values cs = [] then NaN
      else if name = ''mean'' then exact_mean t cs
      else if name = ''min'' then Finite (Min (set (numeric_values cs)))
      else if name = ''max'' then Finite (Max (set (numeric_values cs)))
      else NaN)"

text \<open>A session in which the upload parses to the given table, nothing raises, the
  library is the exact one and the user has touched no widget.\<close>

definition quiet_session :: "dataframe \<Rightarrow> session" where
  "quiet_session df =
     \<lparr>uploaded_file = Some ''kpi.xlsx'', read_excel = (\<lambda>_. Inr df),
      preview_raises = (\<lambda>_. None), metric_raises = (\<lambda>_ _. None), px_raises = (\<lambda>_. None),
      summary_raises = (\<lambda>_. None),
      float_sum = exact_sum, float_mean = exact_mean, float_group_sum = exact_sum,
      float_stat = exact_stat,
      kpi_choice = None, bar_choice = 0, line_choice = 0, hist_choice = 0,
      pie_cat_choice = 0, pie_val_choice = 0\<rparr>"

text \<open>A plotting library that raises exactly on the figures whose columns do not
  match the table, and a session with it.\<close>

definition strict_px :: "dataframe \<Rightarrow> fig \<Rightarrow> exn option" where
  "strict_px df f = (if fig_columns_match df f then None else Some (Exception ''bad column''))"

definition strict_session :: "dataframe \<Rightarrow> session" where
  "strict_session df = (quiet_session df)\<lparr>px_raises := strict_px df\<rparr>"





text \<open>A session in which showing the preview raises, as it does for \<open>big_table\<close>, and
  one in which the KPI card of a column of durations raises, as formatting a duration
  with \<^verbatim>\<open>:,.2f\<close> does.\<close>

definition overflow_session :: "dataframe \<Rightarrow> session" where
  "overflow_session df =
     (quiet_session df)\<lparr>preview_raises := (\<lambda>_. Some (Exception ''int too big to convert''))\<rparr>"

definition duration_session :: "dataframe \<Rightarrow> session" where
  "duration_session df =
     (quiet_session df)\<lparr>metric_raises :=
        (\<lambda>d col. if dtype_of d col = Timedelta64
                 then Some (Exception ''unsupported format string passed to Timedelta.__format__'')
                 else None)\<rparr>"


section \<open>How the page is put together\<close>

lemma fst_seq_emit: "fst (seq (emit es) q) = es @ fst q"
  by (simp add: seq_def emit_def)

lemma snd_seq_emit: "snd (seq (emit es) q) = snd q"
  by (simp add: seq_def emit_def)

lemma snd_seq: "snd (seq p q) = (case snd p of Some e \<Rightarrow> Some e | None \<Rightarrow> snd q)"
  by (simp add: seq_def split: option.splits)

lemma fst_seq: "fst (seq p q) = (case snd p of Some e \<Rightarrow> fst p | None \<Rightarrow> fst p @ fst q)"
  by (simp add: seq_def split: option.splits)

lemma seq_completes:
  "snd (seq p q) = None \<longleftrightarrow> snd p = None \<and> snd q = None"
  by (simp add: snd_seq split: option.splits)

lemma set_fst_seq: "set (fst (seq p q)) \<subseteq> set (fst p) \<union> set (fst q)"
  by (auto simp: fst_seq split: option.splits)

lemma set_fst_seq_left: "set (fst p) \<subseteq> set (fst (seq p q))"
  by (auto simp: fst_seq split: option.splits)

lemma last_seq:
  assumes "snd (seq p q) = None" and "fst q \<noteq> []"
  shows "last (fst (seq p q)) = last (fst q)"
  using assms by (simp add: fst_seq seq_completes)

lemma fst_handler: "set (fst p) \<subseteq> set (fst (handler p))"
  by (cases "snd p") (auto simp: handler_def split: exn.splits)

lemma app_uploaded:
  "uploaded_file S = Some uploaded \<Longrightarrow>
   app S = [Title, Intro, FileUploader] @ fst (handler (try_body S uploaded))"
  by (simp add: app_def script_def)

lemma escaped_uploaded:
  "uploaded_file S = Some uploaded \<Longrightarrow> escaped S = snd (handler (try_body S uploaded))"
  by (simp add: escaped_def script_def)

lemma set_app_shown:
  "uploaded_file S = Some uploaded \<Longrightarrow> set (fst (try_body S uploaded)) \<subseteq> set (app S)"
  using fst_handler [of "try_body S uploaded"] by (auto simp: app_uploaded)

lemma try_body_loaded:
  "load_excel_data S uploaded = Inr loaded \<Longrightarrow>
   try_body S uploaded =
     seq (emit (fst (limit_rows loaded)))
       (seq (file_info S (snd (limit_rows loaded))) (dashboard S (snd (limit_rows loaded))))"
  by (simp add: try_body_def case_prod_beta)


lemma file_info_success:
  "Success (len df) (length (columns df)) \<in> set (fst (file_info S df))"
  by (simp add: file_info_def fst_seq_emit)

lemma file_info_shown:
  assumes "preview_raises S (head 10 df) = None"
  shows "file_info S df =
           emit [Success (len df) (length (columns df)),
                 DataPreview (head 10 df),
                 Metric ''Total Rows'' (len df),
                 Metric ''Total Columns'' (length (columns df)),
                 Metric ''Numeric Columns'' (length (columns (select_dtypes np_number df))),
                 Subheader ''Configure Your KPIs'']"
  using assms by (simp add: file_info_def preview_def seq_def emit_def)

lemma file_info_cut:
  assumes "preview_raises S (head 10 df) = Some e"
  shows "file_info S df = ([Success (len df) (length (columns df))], Some e)"
  using assms by (simp add: file_info_def preview_def seq_def emit_def raise_def)


section \<open>The row ceiling\<close>

lemma seq_emit_nothing: "seq (emit []) q = q"
  by (simp add: seq_def emit_def)

text \<open>
  Claim C1. When the upload parses to a table of more than 10,000 rows, the rest of
  the script runs on the table cut to its first 10,000 rows (same columns), after the
  advisory that names the full row count; the page shows the advisory and, in the
  success message, a row count of 10,000. When the table has at most 10,000 rows, the
  rest of the script runs on the table as loaded and the success message shows its
  row count. In both cases the row metric shows the same count when the preview,
  which comes before it, does not raise.
\<close>

theorem row_ceiling:
  assumes "uploaded_file S = Some uploaded"
    and "load_excel_data S uploaded = Inr loaded"
  shows "if len loaded > 10000
         then try_body S uploaded =
                seq (emit [WarningLarge (len loaded)])
                  (seq (file_info S (head 10000 loaded)) (dashboard S (head 10000 loaded)))
              \<and> rows (head 10000 loaded) = take 10000 (rows loaded)
              \<and> columns (head 10000 loaded) = columns loaded
              \<and> len (head 10000 loaded) = 10000
              \<and> WarningLarge (len loaded) \<in> set (app S)
              \<and> Success 10000 (length (columns loaded)) \<in> set (app S)
              \<and> (preview_raises S (head 10 (head 10000 loaded)) = None
                   \<longrightarrow> Metric ''Total Rows'' 10000 \<in> set (app S))
         else try_body S uploaded = seq (file_info S loaded) (dashboard S loaded)
              \<and> Success (len loaded) (length (columns loaded)) \<in> set (app S)
              \<and> (preview_raises S (head 10 loaded) = None
                   \<longrightarrow> Metric ''Total Rows'' (len loaded) \<in> set (app S))"
proof (cases "len loaded > 10000")
  case True
  let ?df = "head 10000 loaded"
  have tb: "try_body S uploaded =
      seq (emit [WarningLarge (len loaded)]) (seq (file_info S ?df) (dashboard S ?df))"
    using True by (simp add: try_body_loaded [OF assms(2)] limit_rows_def)
  have l: "len ?df = 10000"
    using True by (simp add: len_def head_def)
  have c: "columns ?df = columns loaded"
    by (simp add: head_def)
  have sub: "set (fst (file_info S ?df)) \<subseteq> set (fst (try_body S uploaded))"
    unfolding tb using set_fst_seq_left [of "file_info S ?df" "dashboard S ?df"]
    by (auto simp: fst_seq_emit)
  have w: "WarningLarge (len loaded) \<in> set (fst (try_body S uploaded))"
    by (simp add: tb fst_seq_emit)
  have s: "Success 10000 (length (columns loaded)) \<in> set (fst (try_body S uploaded))"
    using sub file_info_success [of ?df S] by (auto simp: l c)
  have m: "Metric ''Total Rows'' 10000 \<in> set (fst (try_body S uploaded))"
    if "preview_raises S (head 10 ?df) = None"
    using sub by (auto simp: file_info_shown [OF that] emit_def l)
  show ?thesis
    using True tb l w s m set_app_shown [OF assms(1)] by (auto simp: head_def)
next
  case False
  have tb: "try_body S uploaded = seq (file_info S loaded) (dashboard S loaded)"
    using False by (simp add: try_body_loaded [OF assms(2)] limit_rows_def seq_emit_nothing)
  have sub: "set (fst (file_info S loaded)) \<subseteq> set (fst (try_body S uploaded))"
    unfolding tb by (rule set_fst_seq_left)
  have s: "Success (len loaded) (length (columns loaded)) \<in> set (fst (try_body S uploaded))"
    using sub file_info_success [of loaded S] by auto
  have m: "Metric ''Total Rows'' (len loaded) \<in> set (fst (try_body S uploaded))"
    if "preview_raises S (head 10 loaded) = None"
    using sub by (auto simp: file_info_shown [OF that] emit_def)
  show ?thesis
    using False tb s m set_app_shown [OF assms(1)] by auto
qed

theorem row_ceiling_witness:
  "uploaded_file (quiet_session long_table) = Some ''kpi.xlsx''
   \<and> load_excel_data (quiet_session long_table) ''kpi.xlsx'' = Inr long_table
   \<and> len long_table = 10001
   \<and> rows (head 10000 long_table) = take 10000 (rows long_table)
   \<and> len (head 10000 long_table) = 10000
   \<and> WarningLarge 10001 \<in> set (app (quiet_session long_table))
   \<and> Success 10000 1 \<in> set (app (quiet_session long_table))
   \<and> Metric ''Total Rows'' 10000 \<in> set (app (quiet_session long_table))"
proof -
  have u: "uploaded_file (quiet_session long_table) = Some ''kpi.xlsx''"
    by (simp add: quiet_session_def)
  have l: "load_excel_data (quiet_session long_table) ''kpi.xlsx'' = Inr long_table"
    by (simp add: quiet_session_def load_excel_data_def)
  have n: "len long_table = 10001"
    by (simp add: long_table_def len_def)
  have c: "length (columns long_table) = 1"
    by (simp add: long_table_def)
  have p: "preview_raises (quiet_session long_table) (head 10 (head 10000 long_table)) = None"
    by (simp add: quiet_session_def)
  show ?thesis
    using row_ceiling [OF u l] u l n c p by simp
qed


section \<open>The bar chart\<close>

text \<open>
  Claim C9. The bar figure built with the script's limit of 20 has one bar per row of
  the first 20 rows of the table, in table order: bar \<open>i\<close> is the cell of row \<open>i\<close>
  in the chosen column, whatever the values are. A table of at most 20 rows is drawn
  in full.
\<close>

theorem bar_first_rows:
  assumes "create_bar_chart S df column 20 = Inr f"
  shows "f = BarFig (head 20 df) column
       \<and> bars f = map (\<lambda>r. r column) (take 20 (rows df))
       \<and> length (bars f) = min 20 (len df)
       \<and> (\<forall>i < length (bars f). bars f ! i = (rows df ! i) column)
       \<and> (len df \<le> 20 \<longrightarrow> bars f = map (\<lambda>r. r column) (rows df))"
proof -
  have f: "f = BarFig (head 20 df) column"
    using assms by (auto simp: create_bar_chart_def px_def Let_def split: option.splits)
  have b: "bars f = map (\<lambda>r. r column) (take 20 (rows df))"
    by (simp add: f series_def head_def)
  have l: "length (bars f) = min 20 (len df)"
    by (simp add: b len_def min.commute)
  have i: "\<forall>i < length (bars f). bars f ! i = (rows df ! i) column"
    by (simp add: b)
  have a: "len df \<le> 20 \<longrightarrow> bars f = map (\<lambda>r. r column) (rows df)"
    by (simp add: b len_def)
  show ?thesis
    using f b l i a by blast
qed

theorem bar_first_rows_witness:
  "create_bar_chart (quiet_session long_table) long_table (LStr ''units'') 20
     = Inr (BarFig (head 20 long_table) (LStr ''units''))
   \<and> len long_table = 10001
   \<and> bars (BarFig (head 20 long_table) (LStr ''units'')) = replicate 20 (Num 1)
   \<and> create_bar_chart (quiet_session sales_table) sales_table (LStr ''units'') 20
     = Inr (BarFig (head 20 sales_table) (LStr ''units''))
   \<and> bars (BarFig (head 20 sales_table) (LStr ''units'')) = [Num 10, Missing, Num 20]"
proof -
  have h: "create_bar_chart (quiet_session long_table) long_table (LStr ''units'') 20
     = Inr (BarFig (head 20 long_table) (LStr ''units''))"
    by (simp add: create_bar_chart_def px_def quiet_session_def)
  have h': "create_bar_chart (quiet_session sales_table) sales_table (LStr ''units'') 20
     = Inr (BarFig (head 20 sales_table) (LStr ''units''))"
    by (simp add: create_bar_chart_def px_def quiet_session_def)
  have n: "len long_table = 10001"
    by (simp add: long_table_def len_def)
  have "bars (BarFig (head 20 long_table) (LStr ''units''))
          = map (\<lambda>r. r (LStr ''units'')) (take 20 (rows long_table))"
    using bar_first_rows [OF h] by blast
  then have b: "bars (BarFig (head 20 long_table) (LStr ''units'')) = replicate 20 (Num 1)"
    by (simp add: long_table_def)
  have "len sales_table \<le> 20"
    by (simp add: sales_table_def len_def)
  then have "bars (BarFig (head 20 sales_table) (LStr ''units''))
          = map (\<lambda>r. r (LStr ''units'')) (rows sales_table)"
    using bar_first_rows [OF h'] by blast
  then have b': "bars (BarFig (head 20 sales_table) (LStr ''units'')) = [Num 10, Missing, Num 20]"
    by (simp add: sales_table_def sales_row_def)
  show ?thesis
    using h h' n b b' by simp
qed


section \<open>The shape of the summary table\<close>

lemma filter_label_unique:
  assumes "distinct (map fst cs)" and "(l, t) \<in> set cs"
  shows "filter (\<lambda>ct. fst ct = l) cs = [(l, t)]"
  using assms
proof (induction cs)
  case Nil
  then show ?case by simp
next
  case (Cons c cs)
  show ?case
  proof (cases "c = (l, t)")
    case True
    then have "\<forall>ct \<in> set cs. fst ct \<noteq> l"
      using Cons.prems(1) by force
    then have "filter (\<lambda>ct. fst ct = l) cs = []"
      by (simp add: filter_empty_conv)
    then show ?thesis using True by simp
  next
    case False
    then have "(l, t) \<in> set cs" using Cons.prems(2) by simp
    moreover have "l \<in> fst ` set cs"
      using \<open>(l, t) \<in> set cs\<close> by (metis fst_conv image_eqI)
    then have "fst c \<noteq> l"
      using Cons.prems(1) by auto
    ultimately show ?thesis using Cons by simp
  qed
qed

lemma getitem_columns_sublist:
  assumes "distinct (map fst cs)" and "set sel \<subseteq> set cs"
  shows "concat (map (\<lambda>l. filter (\<lambda>ct. fst ct = l) cs) (map fst sel)) = sel"
  using assms(2)
proof (induction sel)
  case Nil
  then show ?case by simp
next
  case (Cons c sel)
  have "filter (\<lambda>ct. fst ct = fst c) cs = [c]"
    using filter_label_unique [OF assms(1), of "fst c" "snd c"] Cons.prems by simp
  then show ?case using Cons by simp
qed

lemma columns_numeric_frame:
  assumes "distinct (map fst (columns df))"
  shows "columns (getitem_columns df (numeric_columns df)) =
         filter (\<lambda>ct. np_number (snd ct)) (columns df)"
  unfolding getitem_columns_def numeric_columns_def columns_tolist_def select_dtypes_def
  using getitem_columns_sublist [OF assms, of "filter (\<lambda>ct. np_number (snd ct)) (columns df)"]
  by simp

lemma summary_panel_shown:
  assumes "snd (summary_panel S df nc) = None"
  shows "fst (summary_panel S df nc) =
           [Subheader ''Summary Statistics'', SummaryTable (summary_statistics S df nc)]"
  using assms
  by (auto simp: summary_panel_def seq_def emit_def raise_def split: option.splits)

lemma dashboard_numeric:
  assumes "numeric_columns df \<noteq> []"
  shows "dashboard S df =
      seq (kpi_cards S df (numeric_columns df)) (seq (emit [Subheader ''Visualizations''])
        (seq (bar_panel S df (numeric_columns df)) (seq (line_panel S df (numeric_columns df))
          (seq (hist_panel S df (numeric_columns df)) (seq (pie_panel S df (numeric_columns df))
            (summary_panel S df (numeric_columns df)))))))"
  using assms by (simp add: dashboard_def Let_def)

lemma dashboard_ends_with_summary:
  assumes "snd (dashboard S df) = None" and "numeric_columns df \<noteq> []"
  shows "last (fst (dashboard S df)) = SummaryTable (summary_statistics S df (numeric_columns df))"
proof -
  let ?n = "numeric_columns df"
  have c: "snd (summary_panel S df ?n) = None"
    using assms(1) unfolding dashboard_numeric [OF assms(2)] by (simp add: seq_completes)
  have t: "fst (summary_panel S df ?n) \<noteq> []"
    "last (fst (summary_panel S df ?n)) = SummaryTable (summary_statistics S df ?n)"
    by (simp_all add: summary_panel_shown [OF c])
  have n: "\<And>p q. snd (seq p q) = None \<Longrightarrow> fst q \<noteq> [] \<Longrightarrow> fst (seq p q) \<noteq> []"
    by (simp add: fst_seq seq_completes)
  show ?thesis
    using assms(1) t unfolding dashboard_numeric [OF assms(2)]
    by (simp add: last_seq n seq_completes)
qed

text \<open>
  Claim C5, as amended. For a table with distinct column labels and at least one
  numeric column, a run that is not cut short ends with the summary table, and that
  table has exactly one column per numeric column of the table, in table order, and
  exactly eight rows: count, mean, std, min, 25%, 50%, 75% and max.
\<close>

theorem summary_shape:
  assumes "distinct (map fst (columns df))"
    and "numeric_columns df \<noteq> []"
    and "snd (dashboard S df) = None"
  shows "last (fst (dashboard S df)) = SummaryTable (summary_statistics S df (numeric_columns df))
       \<and> map fst (stat_columns (summary_statistics S df (numeric_columns df))) = numeric_columns df
       \<and> length (stat_columns (summary_statistics S df (numeric_columns df)))
           = length (numeric_columns df)
       \<and> stat_index (summary_statistics S df (numeric_columns df))
           = [''count'', ''mean'', ''std'', ''min'', ''25%'', ''50%'', ''75%'', ''max'']
       \<and> length (stat_index (summary_statistics S df (numeric_columns df))) = 8
       \<and> list_all (\<lambda>c. length (snd c) = 8)
            (stat_columns (summary_statistics S df (numeric_columns df)))"
proof -
  have "map fst (stat_columns (summary_statistics S df (numeric_columns df)))
          = map fst (columns (getitem_columns df (numeric_columns df)))"
    by (simp add: summary_statistics_def describe_def comp_def)
  also have "\<dots> = map fst (filter (\<lambda>ct. np_number (snd ct)) (columns df))"
    by (simp only: columns_numeric_frame [OF assms(1)])
  also have "\<dots> = numeric_columns df"
    by (simp add: numeric_columns_def columns_tolist_def select_dtypes_def)
  finally have c:
    "map fst (stat_columns (summary_statistics S df (numeric_columns df))) = numeric_columns df" .
  have "length (map fst (stat_columns (summary_statistics S df (numeric_columns df))))
          = length (numeric_columns df)"
    by (simp only: c)
  then have l: "length (stat_columns (summary_statistics S df (numeric_columns df)))
          = length (numeric_columns df)"
    by simp
  have a: "list_all (\<lambda>c. length (snd c) = 8)
            (stat_columns (summary_statistics S df (numeric_columns df)))"
    by (simp add: summary_statistics_def describe_def list_all_iff describe_series_def)
  show ?thesis
    using c l a dashboard_ends_with_summary [OF assms(3,2)]
    by (simp add: summary_statistics_def describe_def)
qed


lemma plotly_chart_raises:
  "snd (plotly_chart (px S f)) = px_raises S f"
  by (simp add: plotly_chart_def px_def raise_def emit_def split: option.splits)

lemma seqs_complete:
  "(\<And>p. p \<in> set ps \<Longrightarrow> snd p = None) \<Longrightarrow> snd (seqs ps) = None"
  by (induction ps) (simp_all add: emit_def seq_completes)

lemma kpi_cards_complete:
  assumes "\<And>c. metric_raises S df c = None"
  shows "snd (kpi_cards S df nc) = None"
proof -
  have "snd (seqs (map (show_kpi S df) cs)) = None" for cs
    by (rule seqs_complete) (auto simp: show_kpi_def assms emit_def)
  then show ?thesis
    by (simp add: kpi_cards_def Let_def seq_completes emit_def)
qed

lemma panels_complete:
  assumes lib: "\<And>f. fig_columns_match df f \<Longrightarrow> px_raises S f = None"
  shows "snd (bar_panel S df (numeric_columns df)) = None"
    and "snd (line_panel S df (numeric_columns df)) = None"
    and "snd (hist_panel S df (numeric_columns df)) = None"
    and "snd (pie_panel S df (numeric_columns df)) = None"
proof -
  have sel: "\<And>options i c. selectbox options i = Some c \<Longrightarrow> c \<in> set options"
    by (auto simp: selectbox_def split: if_splits)
  have e: "\<And>es. snd (emit es) = None"
    by (simp add: emit_def)
  show "snd (bar_panel S df (numeric_columns df)) = None"
    by (auto simp: bar_panel_def snd_seq e create_bar_chart_def plotly_chart_raises lib
        dest: sel split: option.splits)
  show "snd (line_panel S df (numeric_columns df)) = None"
    by (auto simp: line_panel_def snd_seq e create_line_chart_def plotly_chart_raises lib
        dest: sel split: option.splits)
  show "snd (hist_panel S df (numeric_columns df)) = None"
    by (auto simp: hist_panel_def snd_seq e create_histogram_def plotly_chart_raises lib
        dest: sel split: option.splits)
  show "snd (pie_panel S df (numeric_columns df)) = None"
    by (auto simp: pie_panel_def Let_def snd_seq e create_pie_chart_def plotly_chart_raises
        intro!: lib dest: sel split: option.splits)
qed

lemma summary_panel_complete:
  "summary_raises S (getitem_columns df nc) = None \<Longrightarrow> snd (summary_panel S df nc) = None"
  by (simp add: summary_panel_def seq_completes emit_def)

lemma dashboard_completes:
  assumes "\<And>f. fig_columns_match df f \<Longrightarrow> px_raises S f = None"
    and "\<And>c. metric_raises S df c = None"
    and "summary_raises S (getitem_columns df (numeric_columns df)) = None"
  shows "snd (dashboard S df) = None"
  using panels_complete [of df S, OF assms(1)] kpi_cards_complete [of S df, OF assms(2)]
    summary_panel_complete [OF assms(3)]
  by (simp add: dashboard_def Let_def seq_completes emit_def)

lemma quiet_dashboard: "snd (dashboard (quiet_session t) df) = None"
  by (rule dashboard_completes) (simp_all add: quiet_session_def)

lemma sales_columns:
  "numeric_columns sales_table = [LStr ''units'']"
  "categorical_cols sales_table = [LStr ''region'']"
  by (simp_all add: sales_table_def numeric_columns_def categorical_cols_def columns_tolist_def
      select_dtypes_def)

theorem summary_shape_witness:
  "numeric_columns sales_table = [LStr ''units'']
   \<and> snd (dashboard (quiet_session sales_table) sales_table) = None
   \<and> last (fst (dashboard (quiet_session sales_table) sales_table))
       = SummaryTable (summary_statistics (quiet_session sales_table) sales_table [LStr ''units''])
   \<and> map fst (stat_columns (summary_statistics (quiet_session sales_table) sales_table
        [LStr ''units''])) = [LStr ''units'']
   \<and> length (stat_index (summary_statistics (quiet_session sales_table) sales_table
        [LStr ''units''])) = 8"
proof -
  have d: "distinct (map fst (columns sales_table))"
    by (simp add: sales_table_def)
  have n: "numeric_columns sales_table = [LStr ''units'']"
    by (rule sales_columns)
  then have ne: "numeric_columns sales_table \<noteq> []"
    by simp
  have q: "snd (dashboard (quiet_session sales_table) sales_table) = None"
    by (rule quiet_dashboard)
  show ?thesis
    using summary_shape [OF d ne q] n q by simp
qed

text \<open>
  Claim C5 as stated asks for one row per numeric column. The table of
  \<open>sales_table\<close> has one numeric column and its summary has eight rows.
\<close>

theorem summary_rows_counterexample:
  "length (numeric_columns sales_table) = 1
   \<and> length (stat_index (summary_statistics (quiet_session sales_table) sales_table
        (numeric_columns sales_table))) = 8
   \<and> length (stat_index (summary_statistics (quiet_session sales_table) sales_table
        (numeric_columns sales_table)))
       \<noteq> length (numeric_columns sales_table)"
  by (simp add: sales_columns summary_statistics_def describe_def)


section \<open>Sums of integer columns\<close>

lemma wrap64_add_left: "wrap64 (wrap64 a + b) = wrap64 (a + b)"
proof -
  have "(wrap64 a + b + 2 ^ 63) mod 2 ^ 64 = ((a + 2 ^ 63) mod 2 ^ 64 + b) mod 2 ^ 64"
    by (simp add: wrap64_def algebra_simps)
  also have "\<dots> = (a + 2 ^ 63 + b) mod 2 ^ 64"
    by (simp add: mod_add_left_eq)
  finally show ?thesis
    by (simp add: wrap64_def algebra_simps)
qed

lemma wrap64_idem: "wrap64 (wrap64 a) = wrap64 a"
  using wrap64_add_left [of a 0] by simp


lemma wrap64_range: "- (2 ^ 63) \<le> wrap64 i \<and> wrap64 i < 2 ^ 63"
proof -
  have "0 \<le> (i + 2 ^ 63) mod 2 ^ 64" "(i + 2 ^ 63) mod 2 ^ 64 < (2 ^ 64 :: int)"
    by simp_all
  then show ?thesis
    by (simp add: wrap64_def)
qed

lemma fold_wrap64:
  "fold (\<lambda>x acc. wrap64 (acc + \<lfloor>x\<rfloor>)) xs (wrap64 a) = wrap64 (a + (\<Sum>x\<leftarrow>xs. \<lfloor>x\<rfloor>))"
proof (induction xs arbitrary: a)
  case Nil
  then show ?case by (simp add: wrap64_idem)
next
  case (Cons x xs)
  have "fold (\<lambda>x acc. wrap64 (acc + \<lfloor>x\<rfloor>)) (x # xs) (wrap64 a)
          = fold (\<lambda>x acc. wrap64 (acc + \<lfloor>x\<rfloor>)) xs (wrap64 (a + \<lfloor>x\<rfloor>))"
    by (simp add: wrap64_add_left)
  also have "\<dots> = wrap64 (a + \<lfloor>x\<rfloor> + (\<Sum>x\<leftarrow>xs. \<lfloor>x\<rfloor>))"
    by (rule Cons.IH)
  finally show ?case by (simp add: add.assoc)
qed

lemma floor_numeric_values:
  "(\<Sum>x\<leftarrow>numeric_values cs. \<lfloor>x\<rfloor>) = (\<Sum>c\<leftarrow>cs. cell_int c)"
  by (induction cs rule: numeric_values.induct) (simp_all add: cell_int_def)

lemma int64_sum_wraps: "int64_sum cs = wrap64 (\<Sum>c\<leftarrow>cs. cell_int c)"
proof -
  have "wrap64 0 = 0"
    by (simp add: wrap64_def)
  then have "int64_sum cs = fold (\<lambda>x acc. wrap64 (acc + \<lfloor>x\<rfloor>)) (numeric_values cs) (wrap64 0)"
    by (simp add: int64_sum_def)
  then show ?thesis
    by (simp add: fold_wrap64 floor_numeric_values)
qed


section \<open>The pie aggregation\<close>

lemma tie_keys:
  "group_keys tie_table (LStr ''region'') =
     map Str [''a'', ''b'', ''c'', ''d'', ''e'', ''f'', ''g'', ''h'', ''i'', ''j'', ''k'']"
  by (simp add: group_keys_def tie_table_def series_def sales_row_def)

lemma tie_dtype: "dtype_of tie_table (LStr ''units'') = Int64"
  by (simp add: dtype_of_def tie_table_def)

lemma tie_pie:
  "nlargest 10 (groupby_sum S tie_table (LStr ''region'') (LStr ''units'')) =
     map (\<lambda>s. (Str s, Finite 1)) [''a'', ''b'', ''c'', ''d'', ''e'', ''f'', ''g'', ''h'', ''i'', ''j'']"
  unfolding groupby_sum_def tie_keys tie_dtype
  by (simp add: nlargest_def tie_table_def series_def sales_row_def group_sum_def int64_sum_def
      wrap64_def)

lemma tie_pie_by_encounter:
  "pie_by_encounter S tie_table (LStr ''region'') (LStr ''units'') =
     map (\<lambda>s. (Str s, Finite 1)) [''k'', ''a'', ''b'', ''c'', ''d'', ''e'', ''f'', ''g'', ''h'', ''i'']"
  unfolding pie_by_encounter_def group_total_def tie_dtype
  by (simp add: encounter_keys_def tie_table_def series_def sales_row_def
      group_sum_def int64_sum_def wrap64_def)

text \<open>
  Claim C2 as stated breaks ties by encounter order. In \<open>tie_table\<close> all eleven groups
  tie; the group met first, \<open>k\<close>, is among the ten of the spec's wording, and the code
  keeps the ten that come first in key order, \<open>a\<close> to \<open>j\<close>, and drops \<open>k\<close>.
\<close>

theorem pie_tie_counterexample:
  "create_pie_chart (quiet_session tie_table) tie_table (LStr ''region'') (LStr ''units'')
     = Inr (PieFig
             [(Str ''a'', Finite 1), (Str ''b'', Finite 1), (Str ''c'', Finite 1),
              (Str ''d'', Finite 1), (Str ''e'', Finite 1), (Str ''f'', Finite 1),
              (Str ''g'', Finite 1), (Str ''h'', Finite 1), (Str ''i'', Finite 1),
              (Str ''j'', Finite 1)]
             (LStr ''region'') (LStr ''units''))
   \<and> (Str ''k'', Finite 1)
       \<in> set (pie_by_encounter (quiet_session tie_table) tie_table (LStr ''region'') (LStr ''units''))
   \<and> (Str ''k'', Finite 1)
       \<notin> set (nlargest 10
                (groupby_sum (quiet_session tie_table) tie_table (LStr ''region'') (LStr ''units'')))
   \<and> nlargest 10 (groupby_sum (quiet_session tie_table) tie_table (LStr ''region'') (LStr ''units''))
       \<noteq> pie_by_encounter (quiet_session tie_table) tie_table (LStr ''region'') (LStr ''units'')"
proof -
  have "create_pie_chart (quiet_session tie_table) tie_table (LStr ''region'') (LStr ''units'')
     = Inr (PieFig (nlargest 10
              (groupby_sum (quiet_session tie_table) tie_table (LStr ''region'') (LStr ''units'')))
              (LStr ''region'') (LStr ''units''))"
    by (simp add: create_pie_chart_def px_def quiet_session_def)
  then show ?thesis
    unfolding tie_pie tie_pie_by_encounter by simp
qed

lemma inj_key_rank: "key_rank a = key_rank b \<Longrightarrow> a = b"
  by (cases a; cases b) simp_all

lemma group_keys_set:
  "set (group_keys df cat_col) = set (series df cat_col) - {Missing}"
  by (auto simp: group_keys_def)

lemma group_keys_distinct: "distinct (group_keys df cat_col)"
  by (simp add: group_keys_def)

lemma group_keys_ascending:
  "sorted_wrt (\<lambda>a b. key_rank a < key_rank b) (group_keys df cat_col)"
proof -
  have s: "sorted (map key_rank (group_keys df cat_col))"
    by (simp add: group_keys_def)
  have "distinct (map key_rank (group_keys df cat_col))"
    using group_keys_distinct [of df cat_col]
    by (simp add: distinct_map inj_on_def) (metis inj_key_rank)
  then have "sorted_wrt (<) (map key_rank (group_keys df cat_col))"
    using s by (simp add: strict_sorted_iff)
  then show ?thesis
    by (simp add: sorted_wrt_map)
qed

lemma insort_pie_before:
  assumes "sorted_wrt pie_before ys"
    and "\<forall>y \<in> set ys. key_rank (fst x) < key_rank (fst y)"
  shows "sorted_wrt pie_before (insort_key (\<lambda>kv. desc_rank (snd kv)) x ys)"
  using assms
proof (induction ys)
  case Nil
  then show ?case by simp
next
  case (Cons y ys)
  show ?case
  proof (cases "desc_rank (snd x) \<le> desc_rank (snd y)")
    case True
    have "pie_before x z" if "z \<in> set (y # ys)" for z
    proof -
      have "desc_rank (snd y) \<le> desc_rank (snd z)"
        using that Cons.prems(1) by (auto simp: pie_before_def)
      then have "desc_rank (snd x) \<le> desc_rank (snd z)"
        using True by simp
      then show ?thesis
        using that Cons.prems(2) by (auto simp: pie_before_def)
    qed
    then show ?thesis
      using True Cons.prems(1) by simp
  next
    case False
    then have "desc_rank (snd y) < desc_rank (snd x)"
      by (simp add: not_le)
    then have "pie_before y x"
      by (simp add: pie_before_def)
    moreover have "sorted_wrt pie_before (insort_key (\<lambda>kv. desc_rank (snd kv)) x ys)"
      using Cons by simp
    ultimately show ?thesis
      using False Cons.prems(1) by (auto simp: set_insort_key)
  qed
qed

lemma sort_pie_before:
  assumes "sorted_wrt (\<lambda>a b. key_rank (fst a) < key_rank (fst b)) xs"
  shows "sorted_wrt pie_before (sort_key (\<lambda>kv. desc_rank (snd kv)) xs)"
  using assms
proof (induction xs)
  case Nil
  then show ?case by simp
next
  case (Cons x xs)
  then show ?case
    by (simp add: sort_key_simps insort_pie_before)
qed

lemma groupby_sum_ascending:
  "sorted_wrt (\<lambda>a b. key_rank (fst a) < key_rank (fst b)) (groupby_sum S df cat_col val_col)"
  using group_keys_ascending [of df cat_col]
  by (simp add: groupby_sum_def sorted_wrt_map)

lemma take_drop_ranked:
  assumes "sorted_wrt pie_before xs" and "a \<in> set (take n xs)" and "b \<in> set (drop n xs)"
  shows "pie_before a b"
proof -
  have "sorted_wrt pie_before (take n xs @ drop n xs)"
    using assms(1) by simp
  then show ?thesis
    using assms(2,3) unfolding sorted_wrt_append by blast
qed

lemma groupby_sum_totals:
  "groupby_sum S df cat_col val_col =
     map (\<lambda>k. (k, group_total S df cat_col val_col k)) (group_keys df cat_col)"
  by (simp add: groupby_sum_def group_total_def series_def)

lemma pie_figure:
  assumes "create_pie_chart S df cat_col val_col = Inr f"
  shows "f = PieFig (nlargest 10 (groupby_sum S df cat_col val_col)) cat_col val_col"
  using assms by (auto simp: create_pie_chart_def px_def Let_def split: option.splits)

lemma group_total_int64:
  assumes "dtype_of df val_col = Int64"
  shows "group_total S df cat_col val_col k =
     Finite (of_int (wrap64 (\<Sum>r\<leftarrow>filter (\<lambda>r. r cat_col = k) (rows df). cell_int (r val_col))))"
  using assms by (simp add: group_total_def group_sum_def int64_sum_wraps comp_def)


text \<open>
  Claim C2, as amended. The pie builder drops the rows whose category is missing,
  groups the other rows by category and sums the value column per group; the sum of
  an integer column is the sum of the group's values wrapped into the signed 64-bit
  range, any other sum is the library's floating-point result. It keeps at most ten
  groups, one slice per category, ranked by descending sum, equal sums in ascending
  key order. Every group it leaves out ranks behind every slice, and a group is left
  out only when ten slices are kept: the slices are the ten groups with the largest
  sums, ties going to the key that sorts first, not to the group met first in the
  table.
\<close>

theorem pie_top_ten:
  assumes "create_pie_chart S df cat_col val_col = Inr f"
  shows "length (slices f) = min 10 (card (set (series df cat_col) - {Missing}))
       \<and> distinct (map fst (slices f))
       \<and> sorted_wrt pie_before (slices f)
       \<and> (\<forall>kv \<in> set (slices f).
             fst kv \<noteq> Missing \<and> fst kv \<in> set (series df cat_col)
             \<and> snd kv = group_total S df cat_col val_col (fst kv))
       \<and> (\<forall>k \<in> set (series df cat_col). k \<noteq> Missing \<longrightarrow> k \<notin> fst ` set (slices f) \<longrightarrow>
             length (slices f) = 10
             \<and> (\<forall>kv \<in> set (slices f). pie_before kv (k, group_total S df cat_col val_col k)))
       \<and> (dtype_of df val_col = Int64 \<longrightarrow>
             (\<forall>k. group_total S df cat_col val_col k =
                Finite (of_int (wrap64
                  (\<Sum>r\<leftarrow>filter (\<lambda>r. r cat_col = k) (rows df). cell_int (r val_col))))))"
proof -
  let ?gs = "groupby_sum S df cat_col val_col"
  let ?L = "sort_key (\<lambda>kv. desc_rank (snd kv)) ?gs"
  have sl: "slices f = take 10 ?L"
    using pie_figure [OF assms] by (simp add: nlargest_def)
  have keys: "map fst ?gs = group_keys df cat_col"
    by (simp add: groupby_sum_totals comp_def)
  have setL: "set ?L = set ?gs"
    by simp
  have msetL: "mset (map fst ?L) = mset (group_keys df cat_col)"
    by (metis keys mset_map mset_sort)
  have dL: "distinct (map fst ?L)"
    using msetL group_keys_distinct [of df cat_col] by (metis mset_eq_imp_distinct_iff)
  have lenL: "length ?L = card (set (series df cat_col) - {Missing})"
  proof -
    have "length ?L = length (group_keys df cat_col)"
      by (metis keys length_map length_sort)
    also have "\<dots> = card (set (group_keys df cat_col))"
      by (simp add: distinct_card group_keys_distinct)
    finally show ?thesis by (simp add: group_keys_set)
  qed
  have ranked: "sorted_wrt pie_before ?L"
    by (rule sort_pie_before [OF groupby_sum_ascending])
  have c1: "length (slices f) = min 10 (card (set (series df cat_col) - {Missing}))"
    unfolding sl length_take lenL by (simp add: min.commute)
  have c2: "distinct (map fst (slices f))"
    using dL by (simp add: sl take_map [symmetric] distinct_take)
  have c3: "sorted_wrt pie_before (slices f)"
    using ranked by (simp add: sl sorted_wrt_take)
  have mem: "kv \<in> set ?gs \<longleftrightarrow>
      fst kv \<in> set (series df cat_col) - {Missing}
      \<and> snd kv = group_total S df cat_col val_col (fst kv)" for kv
    by (cases kv) (auto simp: groupby_sum_totals group_keys_set)
  have c4: "\<forall>kv \<in> set (slices f).
             fst kv \<noteq> Missing \<and> fst kv \<in> set (series df cat_col)
             \<and> snd kv = group_total S df cat_col val_col (fst kv)"
  proof
    fix kv assume "kv \<in> set (slices f)"
    then have "kv \<in> set ?L"
      unfolding sl by (rule in_set_takeD)
    then have "kv \<in> set ?gs"
      by simp
    then show "fst kv \<noteq> Missing \<and> fst kv \<in> set (series df cat_col)
             \<and> snd kv = group_total S df cat_col val_col (fst kv)"
      using mem by auto
  qed
  have c5: "\<forall>k \<in> set (series df cat_col). k \<noteq> Missing \<longrightarrow> k \<notin> fst ` set (slices f) \<longrightarrow>
             length (slices f) = 10
             \<and> (\<forall>kv \<in> set (slices f). pie_before kv (k, group_total S df cat_col val_col k))"
  proof (intro ballI impI)
    fix k assume k: "k \<in> set (series df cat_col)" "k \<noteq> Missing" "k \<notin> fst ` set (slices f)"
    let ?g = "(k, group_total S df cat_col val_col k)"
    have "?g \<in> set ?L"
      using k(1,2) mem [of ?g] setL by simp
    moreover have "?g \<notin> set (take 10 ?L)"
      using k(3) unfolding sl by force
    ultimately have d: "?g \<in> set (drop 10 ?L)"
      by (metis Un_iff append_take_drop_id set_append)
    then have "10 < length ?L"
      by (cases "10 < length ?L") simp_all
    then have "length (slices f) = 10"
      unfolding sl length_take by simp
    moreover have "\<forall>kv \<in> set (slices f). pie_before kv ?g"
      unfolding sl using take_drop_ranked [OF ranked _ d] by blast
    ultimately show "length (slices f) = 10 \<and> (\<forall>kv \<in> set (slices f). pie_before kv ?g)"
      by simp
  qed
  have c6: "dtype_of df val_col = Int64 \<longrightarrow>
             (\<forall>k. group_total S df cat_col val_col k =
                Finite (of_int (wrap64
                  (\<Sum>r\<leftarrow>filter (\<lambda>r. r cat_col = k) (rows df). cell_int (r val_col)))))"
    using group_total_int64 by blast
  show ?thesis
    using c1 c2 c3 c4 c5 c6 by blast
qed

theorem pie_top_ten_witness:
  "create_pie_chart (quiet_session tie_table) tie_table (LStr ''region'') (LStr ''units'')
     = Inr (PieFig
             [(Str ''a'', Finite 1), (Str ''b'', Finite 1), (Str ''c'', Finite 1),
              (Str ''d'', Finite 1), (Str ''e'', Finite 1), (Str ''f'', Finite 1),
              (Str ''g'', Finite 1), (Str ''h'', Finite 1), (Str ''i'', Finite 1),
              (Str ''j'', Finite 1)]
             (LStr ''region'') (LStr ''units''))
   \<and> Str ''k'' \<in> set (series tie_table (LStr ''region''))
   \<and> dtype_of tie_table (LStr ''units'') = Int64
   \<and> group_total (quiet_session tie_table) tie_table (LStr ''region'') (LStr ''units'') (Str ''k'')
       = Finite 1
   \<and> pie_before (Str ''j'', Finite 1) (Str ''k'', Finite 1)
   \<and> card (set (series tie_table (LStr ''region'')) - {Missing}) = 11"
proof -
  let ?S = "quiet_session tie_table"
  let ?f = "PieFig
             [(Str ''a'', Finite 1), (Str ''b'', Finite 1), (Str ''c'', Finite 1),
              (Str ''d'', Finite 1), (Str ''e'', Finite 1), (Str ''f'', Finite 1),
              (Str ''g'', Finite 1), (Str ''h'', Finite 1), (Str ''i'', Finite 1),
              (Str ''j'', Finite 1)]
             (LStr ''region'') (LStr ''units'')"
  have "create_pie_chart ?S tie_table (LStr ''region'') (LStr ''units'')
     = Inr (PieFig (nlargest 10 (groupby_sum ?S tie_table (LStr ''region'') (LStr ''units'')))
              (LStr ''region'') (LStr ''units''))"
    by (simp add: create_pie_chart_def px_def quiet_session_def)
  then have h: "create_pie_chart ?S tie_table (LStr ''region'') (LStr ''units'') = Inr ?f"
    unfolding tie_pie by simp
  note t = pie_top_ten [OF h]
  have k: "Str ''k'' \<in> set (series tie_table (LStr ''region''))"
    by (simp add: tie_table_def series_def sales_row_def)
  have "group_total ?S tie_table (LStr ''region'') (LStr ''units'') (Str ''k'') =
          Finite (of_int (wrap64
            (\<Sum>r\<leftarrow>filter (\<lambda>r. r (LStr ''region'') = Str ''k'') (rows tie_table).
               cell_int (r (LStr ''units'')))))"
    using t tie_dtype by blast
  then have g: "group_total ?S tie_table (LStr ''region'') (LStr ''units'') (Str ''k'') = Finite 1"
    by (simp add: tie_table_def sales_row_def cell_int_def wrap64_def)
  have out: "Str ''k'' \<notin> fst ` set (slices ?f)"
    by simp
  have "\<forall>kv \<in> set (slices ?f).
          pie_before kv (Str ''k'', group_total ?S tie_table (LStr ''region'') (LStr ''units'') (Str ''k''))"
    using t k out by blast
  then have b: "pie_before (Str ''j'', Finite 1) (Str ''k'', Finite 1)"
    unfolding g by simp
  have c: "card (set (series tie_table (LStr ''region'')) - {Missing}) = 11"
    by (simp add: tie_table_def series_def sales_row_def)
  show ?thesis
    by (intro conjI h k tie_dtype g b c)
qed


section \<open>What the panels show\<close>

lemma selectbox_member: "selectbox options i = Some c \<Longrightarrow> c \<in> set options"
  by (auto simp: selectbox_def split: if_splits)

lemma multiselect_subset:
  "set dflt \<subseteq> set options \<Longrightarrow> set (multiselect options dflt choice) \<subseteq> set options"
  by (auto simp: multiselect_def split: option.splits)

lemma set_plotly_chart: "set (fst (plotly_chart (px S f))) \<subseteq> {PlotlyChart f}"
  by (simp add: plotly_chart_def px_def raise_def emit_def split: option.splits)

lemma set_fst_seqs:
  "(\<And>p. p \<in> set ps \<Longrightarrow> set (fst p) \<subseteq> A) \<Longrightarrow> set (fst (seqs ps)) \<subseteq> A"
proof (induction ps)
  case Nil
  then show ?case by (simp add: emit_def)
next
  case (Cons p ps)
  have "set (fst p) \<subseteq> A" "set (fst (seqs ps)) \<subseteq> A"
    using Cons by simp_all
  then show ?case
    using set_fst_seq [of p "seqs ps"] by auto
qed

lemma kpi_cards_elements:
  "set (fst (kpi_cards S df nc)) \<subseteq>
     {Subheader ''Key Performance Indicators'',
      Multiselect nc (if length nc \<ge> 4 then take 4 nc else nc)}
     \<union> kpi_card S df ` set nc"
proof -
  let ?sel = "multiselect nc (if length nc \<ge> 4 then take 4 nc else nc) (kpi_choice S)"
  have "set ?sel \<subseteq> set nc"
    by (rule multiselect_subset) (auto dest: in_set_takeD)
  then have "set (fst (seqs (map (show_kpi S df) ?sel))) \<subseteq> kpi_card S df ` set nc"
    by (intro set_fst_seqs) (auto simp: show_kpi_def raise_def emit_def split: option.splits)
  then show ?thesis
    using set_fst_seq [of "emit [Subheader ''Key Performance Indicators'',
        Multiselect nc (if length nc \<ge> 4 then take 4 nc else nc)]"
        "if ?sel \<noteq> [] then seqs (map (show_kpi S df) ?sel) else emit []"]
    by (auto simp: kpi_cards_def Let_def emit_def split: if_splits)
qed

lemma bar_panel_elements:
  "set (fst (bar_panel S df nc)) \<subseteq>
     {Selectbox ''bar'' nc} \<union> (\<lambda>c. PlotlyChart (BarFig (head 20 df) c)) ` set nc"
proof -
  have "set (fst (plotly_chart (create_bar_chart S df c 20))) \<subseteq>
          (\<lambda>c. PlotlyChart (BarFig (head 20 df) c)) ` set nc" if "c \<in> set nc" for c
    using that set_plotly_chart [of S "BarFig (head 20 df) c"]
    by (auto simp: create_bar_chart_def)
  then show ?thesis
    by (auto simp: bar_panel_def fst_seq emit_def split: option.splits if_splits
        dest!: selectbox_member)
qed

lemma line_panel_elements:
  "set (fst (line_panel S df nc)) \<subseteq>
     {Selectbox ''line'' nc} \<union> (\<lambda>c. PlotlyChart (LineFig (head 50 df) c)) ` set nc"
proof -
  have "set (fst (plotly_chart (create_line_chart S df c 50))) \<subseteq>
          (\<lambda>c. PlotlyChart (LineFig (head 50 df) c)) ` set nc" if "c \<in> set nc" for c
    using that set_plotly_chart [of S "LineFig (head 50 df) c"]
    by (auto simp: create_line_chart_def)
  then show ?thesis
    by (auto simp: line_panel_def fst_seq emit_def split: option.splits if_splits
        dest!: selectbox_member)
qed

lemma hist_panel_elements:
  "set (fst (hist_panel S df nc)) \<subseteq>
     {Selectbox ''hist'' nc} \<union> (\<lambda>c. PlotlyChart (HistFig df c)) ` set nc"
proof -
  have "set (fst (plotly_chart (create_histogram S df c))) \<subseteq>
          (\<lambda>c. PlotlyChart (HistFig df c)) ` set nc" if "c \<in> set nc" for c
    using that set_plotly_chart [of S "HistFig df c"]
    by (auto simp: create_histogram_def)
  then show ?thesis
    by (auto simp: hist_panel_def fst_seq emit_def split: option.splits if_splits
        dest!: selectbox_member)
qed

lemma pie_panel_elements:
  "set (fst (pie_panel S df nc)) \<subseteq>
     {Selectbox ''pie_cat'' (categorical_cols df), Selectbox ''pie_val'' nc}
     \<union> (\<lambda>(c, v). PlotlyChart (PieFig (nlargest 10 (groupby_sum S df c v)) c v))
         ` (set (categorical_cols df) \<times> set nc)"
proof -
  have "set (fst (plotly_chart (create_pie_chart S df c v))) \<subseteq>
          (\<lambda>(c, v). PlotlyChart (PieFig (nlargest 10 (groupby_sum S df c v)) c v))
            ` (set (categorical_cols df) \<times> set nc)"
    if "c \<in> set (categorical_cols df)" and "v \<in> set nc" for c v
    using that set_plotly_chart [of S "PieFig (nlargest 10 (groupby_sum S df c v)) c v"]
    by (auto simp: create_pie_chart_def)
  then show ?thesis
    by (auto simp: pie_panel_def Let_def fst_seq emit_def split: option.splits if_splits
        dest!: selectbox_member)
qed

lemma summary_panel_elements:
  "set (fst (summary_panel S df nc)) \<subseteq>
     {Subheader ''Summary Statistics'', SummaryTable (summary_statistics S df nc)}"
  by (auto simp: summary_panel_def fst_seq emit_def raise_def split: option.splits)

lemma dashboard_elements:
  "set (fst (dashboard S df)) \<subseteq>
     {WarningNoNumeric, Subheader ''Visualizations'', Subheader ''Summary Statistics'',
      SummaryTable (summary_statistics S df (numeric_columns df)),
      Subheader ''Key Performance Indicators'',
      Multiselect (numeric_columns df)
        (if length (numeric_columns df) \<ge> 4 then take 4 (numeric_columns df)
         else numeric_columns df),
      Selectbox ''bar'' (numeric_columns df), Selectbox ''line'' (numeric_columns df),
      Selectbox ''hist'' (numeric_columns df), Selectbox ''pie_val'' (numeric_columns df),
      Selectbox ''pie_cat'' (categorical_cols df)}
     \<union> kpi_card S df ` set (numeric_columns df)
     \<union> (\<lambda>c. PlotlyChart (BarFig (head 20 df) c)) ` set (numeric_columns df)
     \<union> (\<lambda>c. PlotlyChart (LineFig (head 50 df) c)) ` set (numeric_columns df)
     \<union> (\<lambda>c. PlotlyChart (HistFig df c)) ` set (numeric_columns df)
     \<union> (\<lambda>(c, v). PlotlyChart (PieFig (nlargest 10 (groupby_sum S df c v)) c v))
         ` (set (categorical_cols df) \<times> set (numeric_columns df))"
  (is "_ \<subseteq> ?U")
proof (cases "numeric_columns df = []")
  case True
  then show ?thesis
    by (simp add: dashboard_def emit_def)
next
  case False
  let ?n = "numeric_columns df"
  have seq_sub: "set (fst (seq p q)) \<subseteq> ?U"
    if "set (fst p) \<subseteq> ?U" and "set (fst q) \<subseteq> ?U" for p q
    using that set_fst_seq [of p q] by (meson Un_least subset_trans)
  have k: "set (fst (kpi_cards S df ?n)) \<subseteq> ?U"
    by (rule order_trans [OF kpi_cards_elements]) (simp add: subset_iff)
  have v: "set (fst (emit [Subheader ''Visualizations''])) \<subseteq> ?U"
    by (simp add: emit_def)
  have b: "set (fst (bar_panel S df ?n)) \<subseteq> ?U"
    by (rule order_trans [OF bar_panel_elements]) (simp add: subset_iff)
  have l: "set (fst (line_panel S df ?n)) \<subseteq> ?U"
    by (rule order_trans [OF line_panel_elements]) (simp add: subset_iff)
  have h: "set (fst (hist_panel S df ?n)) \<subseteq> ?U"
    by (rule order_trans [OF hist_panel_elements]) (simp add: subset_iff)
  have p: "set (fst (pie_panel S df ?n)) \<subseteq> ?U"
    by (rule order_trans [OF pie_panel_elements]) (simp add: subset_iff)
  have t: "set (fst (summary_panel S df ?n)) \<subseteq> ?U"
    by (rule order_trans [OF summary_panel_elements]) (simp add: subset_iff)
  show ?thesis
    unfolding dashboard_numeric [OF False]
    by (rule seq_sub [OF k seq_sub [OF v seq_sub [OF b seq_sub [OF l seq_sub [OF h seq_sub [OF p t]]]]]])
qed

lemma dashboard_charts_match:
  "e \<in> set (fst (dashboard S df)) \<Longrightarrow> chart_matches df e"
  using subsetD [OF dashboard_elements, of e S df] by (auto simp: kpi_card_def Let_def)

lemma file_info_elements:
  "set (fst (file_info S df)) \<subseteq>
     {Success (len df) (length (columns df)), DataPreview (head 10 df),
      Metric ''Total Rows'' (len df), Metric ''Total Columns'' (length (columns df)),
      Metric ''Numeric Columns'' (length (columns (select_dtypes np_number df))),
      Subheader ''Configure Your KPIs''}"
  by (cases "preview_raises S (head 10 df)") (auto simp: file_info_shown file_info_cut emit_def)

lemma file_info_plain:
  "e \<in> set (fst (limit_rows loaded)) \<union> set (fst (file_info S (snd (limit_rows loaded)))) \<Longrightarrow>
   (\<exists>n. e = WarningLarge n) \<or> (\<exists>n m. e = Success n m) \<or> (\<exists>d. e = DataPreview d)
   \<or> (\<exists>s n. e = Metric s n) \<or> e = Subheader ''Configure Your KPIs''"
  using file_info_elements [of S "snd (limit_rows loaded)"]
  by (auto simp: limit_rows_def split: if_splits)

lemma try_body_elements:
  assumes "load_excel_data S uploaded = Inr loaded"
  shows "set (fst (try_body S uploaded)) \<subseteq>
      set (fst (limit_rows loaded)) \<union> set (fst (file_info S (snd (limit_rows loaded))))
      \<union> set (fst (dashboard S (snd (limit_rows loaded))))"
  unfolding try_body_loaded [OF assms]
  using set_fst_seq [of "file_info S (snd (limit_rows loaded))" "dashboard S (snd (limit_rows loaded))"]
  by (auto simp: fst_seq_emit)

lemma handler_elements:
  "set (fst (handler p)) \<subseteq> set (fst p) \<union> {InfoFormat} \<union> range ErrorMsg"
  by (cases "snd p") (auto simp: handler_def split: exn.splits)

lemma app_elements:
  assumes "uploaded_file S = Some uploaded" and "load_excel_data S uploaded = Inr loaded"
    and "e \<in> set (app S)"
  shows "e \<in> {Title, Intro, FileUploader, InfoFormat} \<or> (\<exists>m. e = ErrorMsg m)
       \<or> e \<in> set (fst (limit_rows loaded)) \<union> set (fst (file_info S (snd (limit_rows loaded))))
       \<or> e \<in> set (fst (dashboard S (snd (limit_rows loaded))))"
  using assms(3) try_body_elements [OF assms(2)] handler_elements [of "try_body S uploaded"]
  unfolding app_uploaded [OF assms(1)]
  by auto


section \<open>The columns handed to the chart builders\<close>

text \<open>
  Claim C10. Whatever the user has chosen in the widgets, every chart on the page was
  built for a column of the table's numeric columns, and the pie for a category of
  its object columns. Hence, when the plotting library raises only on figures whose
  columns do not match the table, no chart panel of the run raises; and when the
  preview, the KPI cards and the summary do not raise either, the body of the
  \<^verbatim>\<open>try\<close> statement completes and the page carries no error message.
\<close>

theorem chart_columns_match:
  assumes "uploaded_file S = Some uploaded"
    and "load_excel_data S uploaded = Inr loaded"
    and "\<forall>f e. px_raises S f = Some e \<longrightarrow> \<not> fig_columns_match (snd (limit_rows loaded)) f"
  shows "list_all (chart_matches (snd (limit_rows loaded))) (app S)
       \<and> snd (bar_panel S (snd (limit_rows loaded)) (numeric_columns (snd (limit_rows loaded)))) = None
       \<and> snd (line_panel S (snd (limit_rows loaded)) (numeric_columns (snd (limit_rows loaded)))) = None
       \<and> snd (hist_panel S (snd (limit_rows loaded)) (numeric_columns (snd (limit_rows loaded)))) = None
       \<and> snd (pie_panel S (snd (limit_rows loaded)) (numeric_columns (snd (limit_rows loaded)))) = None
       \<and> (preview_raises S (head 10 (snd (limit_rows loaded))) = None
            \<and> (\<forall>c. metric_raises S (snd (limit_rows loaded)) c = None)
            \<and> summary_raises S (getitem_columns (snd (limit_rows loaded))
                 (numeric_columns (snd (limit_rows loaded)))) = None
          \<longrightarrow> snd (try_body S uploaded) = None
              \<and> app S = [Title, Intro, FileUploader] @ fst (try_body S uploaded)
              \<and> InfoFormat \<notin> set (app S)
              \<and> escaped S = None)"
proof -
  let ?df = "snd (limit_rows loaded)"
  have m: "chart_matches ?df e" if "e \<in> set (app S)" for e
    using app_elements [OF assms(1,2) that] file_info_plain [of e loaded S]
      dashboard_charts_match [of e S ?df]
    by auto
  have lib: "px_raises S f = None" if "fig_columns_match ?df f" for f
    using assms(3) that by (cases "px_raises S f") auto
  note panels = panels_complete [of ?df S, OF lib]
  have full: "snd (try_body S uploaded) = None
              \<and> app S = [Title, Intro, FileUploader] @ fst (try_body S uploaded)
              \<and> InfoFormat \<notin> set (app S)
              \<and> escaped S = None"
    if p: "preview_raises S (head 10 ?df) = None"
      and k: "\<forall>c. metric_raises S ?df c = None"
      and s: "summary_raises S (getitem_columns ?df (numeric_columns ?df)) = None"
  proof -
    have d: "snd (dashboard S ?df) = None"
      using dashboard_completes [of ?df S, OF lib] k s by simp
    have c: "snd (try_body S uploaded) = None"
      unfolding try_body_loaded [OF assms(2)]
      by (simp add: snd_seq_emit seq_completes d file_info_shown [OF p] emit_def)
    have page: "app S = [Title, Intro, FileUploader] @ fst (try_body S uploaded)"
      using c by (simp add: app_uploaded [OF assms(1)] handler_def)
    have esc: "escaped S = None"
      using c by (simp add: escaped_uploaded [OF assms(1)] handler_def)
    have "e \<noteq> InfoFormat" if "e \<in> set (fst (try_body S uploaded))" for e
      using subsetD [OF try_body_elements [OF assms(2)] that] file_info_plain [of e loaded S]
        subsetD [OF dashboard_elements, of e S ?df]
      by (auto simp: kpi_card_def Let_def)
    then have "InfoFormat \<notin> set (app S)"
      unfolding page by auto
    then show ?thesis
      using c page esc by simp
  qed
  have la: "list_all (chart_matches ?df) (app S)"
    using m by (simp add: list_all_iff)
  have full': "preview_raises S (head 10 ?df) = None
            \<and> (\<forall>c. metric_raises S ?df c = None)
            \<and> summary_raises S (getitem_columns ?df (numeric_columns ?df)) = None
          \<longrightarrow> snd (try_body S uploaded) = None
              \<and> app S = [Title, Intro, FileUploader] @ fst (try_body S uploaded)
              \<and> InfoFormat \<notin> set (app S)
              \<and> escaped S = None"
    using full by blast
  show ?thesis
    by (intro conjI la panels full')
qed

lemma sales_limit: "limit_rows sales_table = ([], sales_table)"
  by (simp add: limit_rows_def len_def sales_table_def)

lemma sales_pie:
  "nlargest 10 (groupby_sum (strict_session sales_table) sales_table (LStr ''region'') (LStr ''units''))
     = [(Str ''north'', Finite 30), (Str ''south'', Finite 0)]"
  by (simp add: nlargest_def groupby_sum_def group_keys_def sales_table_def series_def
      sales_row_def group_sum_def dtype_of_def strict_session_def quiet_session_def exact_sum_def)

lemma sales_kpi:
  "kpi_card (strict_session sales_table) sales_table (LStr ''units'')
     = KpiCard (LStr ''units'') (Finite 30) (Finite 15)"
  by (simp add: kpi_card_def series_sum_def series_mean_def series_def sales_table_def
      sales_row_def dtype_of_def strict_session_def quiet_session_def exact_sum_def exact_mean_def)

lemma sales_dashboard:
  "dashboard (strict_session sales_table) sales_table =
     ([Subheader ''Key Performance Indicators'',
       Multiselect [LStr ''units''] [LStr ''units''],
       KpiCard (LStr ''units'') (Finite 30) (Finite 15),
       Subheader ''Visualizations'',
       Selectbox ''bar'' [LStr ''units''],
       PlotlyChart (BarFig (head 20 sales_table) (LStr ''units'')),
       Selectbox ''line'' [LStr ''units''],
       PlotlyChart (LineFig (head 50 sales_table) (LStr ''units'')),
       Selectbox ''hist'' [LStr ''units''],
       PlotlyChart (HistFig sales_table (LStr ''units'')),
       Selectbox ''pie_cat'' [LStr ''region''],
       Selectbox ''pie_val'' [LStr ''units''],
       PlotlyChart (PieFig [(Str ''north'', Finite 30), (Str ''south'', Finite 0)]
         (LStr ''region'') (LStr ''units'')),
       Subheader ''Summary Statistics'',
       SummaryTable (summary_statistics (strict_session sales_table) sales_table [LStr ''units''])],
      None)"
proof -
  have r: "metric_raises (strict_session sales_table) = (\<lambda>_ _. None)"
    "summary_raises (strict_session sales_table) = (\<lambda>_. None)"
    "px_raises (strict_session sales_table) = strict_px sales_table"
    "kpi_choice (strict_session sales_table) = None"
    "bar_choice (strict_session sales_table) = 0"
    "line_choice (strict_session sales_table) = 0"
    "hist_choice (strict_session sales_table) = 0"
    "pie_cat_choice (strict_session sales_table) = 0"
    "pie_val_choice (strict_session sales_table) = 0"
    by (simp_all add: strict_session_def quiet_session_def)
  show ?thesis
    unfolding dashboard_def sales_columns Let_def
    by (simp add: kpi_cards_def show_kpi_def bar_panel_def line_panel_def hist_panel_def
        pie_panel_def summary_panel_def sales_columns sales_pie sales_kpi r seq_def emit_def
        multiselect_def selectbox_def plotly_chart_def px_def strict_px_def
        create_bar_chart_def create_line_chart_def create_histogram_def create_pie_chart_def
        Let_def)
qed

lemma strict_session_upload:
  "uploaded_file (strict_session df) = Some ''kpi.xlsx''"
  "load_excel_data (strict_session df) ''kpi.xlsx'' = Inr df"
  by (simp_all add: strict_session_def quiet_session_def load_excel_data_def)

lemma sales_file_info:
  "file_info (strict_session sales_table) sales_table =
     ([Success 3 2, DataPreview (head 10 sales_table),
       Metric ''Total Rows'' 3, Metric ''Total Columns'' 2, Metric ''Numeric Columns'' 1,
       Subheader ''Configure Your KPIs''], None)"
proof -
  have "preview_raises (strict_session sales_table) (head 10 sales_table) = None"
    by (simp add: strict_session_def quiet_session_def)
  then show ?thesis
    by (simp add: file_info_shown emit_def len_def select_dtypes_def sales_table_def)
qed

lemma sales_page:
  "app (strict_session sales_table) =
     [Title, Intro, FileUploader,
      Success 3 2, DataPreview (head 10 sales_table),
      Metric ''Total Rows'' 3, Metric ''Total Columns'' 2, Metric ''Numeric Columns'' 1,
      Subheader ''Configure Your KPIs'',
      Subheader ''Key Performance Indicators'',
      Multiselect [LStr ''units''] [LStr ''units''],
      KpiCard (LStr ''units'') (Finite 30) (Finite 15),
      Subheader ''Visualizations'',
      Selectbox ''bar'' [LStr ''units''],
      PlotlyChart (BarFig (head 20 sales_table) (LStr ''units'')),
      Selectbox ''line'' [LStr ''units''],
      PlotlyChart (LineFig (head 50 sales_table) (LStr ''units'')),
      Selectbox ''hist'' [LStr ''units''],
      PlotlyChart (HistFig sales_table (LStr ''units'')),
      Selectbox ''pie_cat'' [LStr ''region''],
      Selectbox ''pie_val'' [LStr ''units''],
      PlotlyChart (PieFig [(Str ''north'', Finite 30), (Str ''south'', Finite 0)]
        (LStr ''region'') (LStr ''units'')),
      Subheader ''Summary Statistics'',
      SummaryTable (summary_statistics (strict_session sales_table) sales_table [LStr ''units''])]"
  unfolding app_uploaded [OF strict_session_upload(1)]
    try_body_loaded [OF strict_session_upload(2)] sales_limit
  by (simp add: sales_dashboard sales_file_info seq_def emit_def handler_def)

theorem chart_columns_match_witness:
  "uploaded_file (strict_session sales_table) = Some ''kpi.xlsx''
   \<and> load_excel_data (strict_session sales_table) ''kpi.xlsx'' = Inr sales_table
   \<and> px_raises (strict_session sales_table) (BarFig (head 20 sales_table) (LStr ''region''))
       = Some (Exception ''bad column'')
   \<and> snd (try_body (strict_session sales_table) ''kpi.xlsx'') = None
   \<and> PlotlyChart (BarFig (head 20 sales_table) (LStr ''units''))
       \<in> set (app (strict_session sales_table))
   \<and> PlotlyChart (PieFig [(Str ''north'', Finite 30), (Str ''south'', Finite 0)]
        (LStr ''region'') (LStr ''units''))
       \<in> set (app (strict_session sales_table))
   \<and> InfoFormat \<notin> set (app (strict_session sales_table))"
proof -
  let ?S = "strict_session sales_table"
  have lib: "\<forall>f e. px_raises ?S f = Some e \<longrightarrow>
               \<not> fig_columns_match (snd (limit_rows sales_table)) f"
    by (simp add: strict_session_def strict_px_def sales_limit)
  have r: "px_raises ?S (BarFig (head 20 sales_table) (LStr ''region''))
       = Some (Exception ''bad column'')"
    by (simp add: strict_session_def strict_px_def sales_columns)
  have p: "PlotlyChart (BarFig (head 20 sales_table) (LStr ''units'')) \<in> set (app ?S)"
    "PlotlyChart (PieFig [(Str ''north'', Finite 30), (Str ''south'', Finite 0)]
       (LStr ''region'') (LStr ''units'')) \<in> set (app ?S)"
    unfolding sales_page by simp_all
  have q: "preview_raises ?S (head 10 (snd (limit_rows sales_table))) = None"
    "\<forall>c. metric_raises ?S (snd (limit_rows sales_table)) c = None"
    "summary_raises ?S (getitem_columns (snd (limit_rows sales_table))
       (numeric_columns (snd (limit_rows sales_table)))) = None"
    by (simp_all add: strict_session_def quiet_session_def)
  note t = chart_columns_match [OF strict_session_upload lib]
  have c: "snd (try_body ?S ''kpi.xlsx'') = None"
    using t q by blast
  have i: "InfoFormat \<notin> set (app ?S)"
    using t q by blast
  show ?thesis
    by (intro conjI strict_session_upload r c p i)
qed


section \<open>The KPI cards\<close>









section \<open>Columns that are neither numeric nor text\<close>

lemma dtype_unique:
  assumes "distinct (map fst cs)" and "(c, t) \<in> set cs" and "(c, t') \<in> set cs"
  shows "t' = t"
  using assms by (meson eq_key_imp_eq_value)

lemma selected_labels:
  "c \<in> set (columns_tolist (select_dtypes include df)) \<longleftrightarrow>
     (\<exists>t. (c, t) \<in> set (columns df) \<and> include t)"
  by (force simp: columns_tolist_def select_dtypes_def)

lemma np_number_cases: "np_number t \<longleftrightarrow> t = Int64 \<or> t = Float64 \<or> t = Timedelta64"
  by (cases t) simp_all

lemma object_dtype_cases: "object_dtype t \<longleftrightarrow> t = Object"
  by (cases t) simp_all

lemma summary_labels:
  "set (map fst (stat_columns (summary_statistics S df ls))) \<subseteq> set ls"
  by (auto simp: summary_statistics_def describe_def getitem_columns_def)

lemma dashboard_offers:
  assumes "e \<in> set (fst (dashboard S df))" and "offers e c"
  shows "c \<in> set (numeric_columns df) \<or> c \<in> set (categorical_cols df)"
proof -
  have "c \<in> set (numeric_columns df)"
    if "offers (SummaryTable (summary_statistics S df (numeric_columns df))) c"
    using that summary_labels [of S df "numeric_columns df"] by auto
  then show ?thesis
    using assms(2) subsetD [OF dashboard_elements assms(1)]
    by (auto simp: kpi_card_def Let_def dest: in_set_takeD split: if_splits)
qed

lemma limit_rows_columns: "columns (snd (limit_rows df)) = columns df"
  by (simp add: limit_rows_def head_def)

text \<open>
  Claim C6, as amended. The two column lists are chosen by dtype, not by looking at
  the values: a column is in the numeric list exactly when its dtype is \<^verbatim>\<open>int64\<close>,
  \<^verbatim>\<open>float64\<close> or \<^verbatim>\<open>timedelta64\<close>, and in the categorical list exactly when its dtype is
  \<^verbatim>\<open>object\<close>. A column of dtype \<^verbatim>\<open>bool\<close> or \<^verbatim>\<open>datetime64\<close> (column labels being
  distinct) is in neither list, and no element of the page offers it: it is no option
  of the KPI multiselect or of a chart select box, no KPI card or chart is made for
  it, and it is no column of the summary table.
\<close>

theorem silent_drop:
  assumes "uploaded_file S = Some uploaded"
    and "load_excel_data S uploaded = Inr loaded"
    and "distinct (map fst (columns loaded))"
  shows "(\<forall>c. c \<in> set (numeric_columns loaded) \<longleftrightarrow>
            (c, Int64) \<in> set (columns loaded) \<or> (c, Float64) \<in> set (columns loaded)
            \<or> (c, Timedelta64) \<in> set (columns loaded))
       \<and> (\<forall>c. c \<in> set (categorical_cols loaded) \<longleftrightarrow> (c, Object) \<in> set (columns loaded))
       \<and> (\<forall>c. (c, Bool) \<in> set (columns loaded) \<or> (c, Datetime64) \<in> set (columns loaded) \<longrightarrow>
             c \<notin> set (numeric_columns loaded)
             \<and> c \<notin> set (categorical_cols loaded)
             \<and> list_all (\<lambda>e. \<not> offers e c) (app S))"
proof -
  let ?df = "snd (limit_rows loaded)"
  have n: "c \<in> set (numeric_columns loaded) \<longleftrightarrow>
            (c, Int64) \<in> set (columns loaded) \<or> (c, Float64) \<in> set (columns loaded)
            \<or> (c, Timedelta64) \<in> set (columns loaded)" for c
    unfolding numeric_columns_def selected_labels np_number_cases by blast
  have o: "c \<in> set (categorical_cols loaded) \<longleftrightarrow> (c, Object) \<in> set (columns loaded)" for c
    unfolding categorical_cols_def selected_labels object_dtype_cases by blast
  have cols: "numeric_columns ?df = numeric_columns loaded"
    "categorical_cols ?df = categorical_cols loaded"
    by (simp_all add: numeric_columns_def categorical_cols_def columns_tolist_def
        select_dtypes_def limit_rows_columns)
  have drop: "c \<notin> set (numeric_columns loaded) \<and> c \<notin> set (categorical_cols loaded)
             \<and> list_all (\<lambda>e. \<not> offers e c) (app S)"
    if h: "(c, Bool) \<in> set (columns loaded) \<or> (c, Datetime64) \<in> set (columns loaded)" for c
  proof -
    obtain t where t: "(c, t) \<in> set (columns loaded)" "t = Bool \<or> t = Datetime64"
      using h by blast
    have 1: "c \<notin> set (numeric_columns loaded)"
      unfolding n using dtype_unique [OF assms(3) t(1)] t(2) by force
    have 2: "c \<notin> set (categorical_cols loaded)"
      unfolding o using dtype_unique [OF assms(3) t(1)] t(2) by force
    have "\<not> offers e c" if "e \<in> set (app S)" for e
      using app_elements [OF assms(1,2) that] file_info_plain [of e loaded S]
        dashboard_offers [of e S ?df c] 1 2 cols
      by auto
    then show ?thesis
      using 1 2 by (simp add: list_all_iff)
  qed
  show ?thesis
    using n o drop by blast
qed

lemma dated_columns:
  "numeric_columns dated_table = [LStr ''units'']"
  "categorical_cols dated_table = [LStr ''region'']"
  by (simp_all add: dated_table_def sales_table_def numeric_columns_def categorical_cols_def
      columns_tolist_def select_dtypes_def)

lemma dated_selectors:
  "Selectbox ''bar'' [LStr ''units''] \<in> set (fst (dashboard (quiet_session dated_table) dated_table))"
  "Selectbox ''pie_cat'' [LStr ''region''] \<in> set (fst (dashboard (quiet_session dated_table) dated_table))"
proof -
  let ?S = "quiet_session dated_table"
  have r: "metric_raises ?S = (\<lambda>_ _. None)" "px_raises ?S = (\<lambda>_. None)"
    "summary_raises ?S = (\<lambda>_. None)" "kpi_choice ?S = None"
    by (simp_all add: quiet_session_def)
  have d: "fst (dashboard ?S dated_table) =
      [Subheader ''Key Performance Indicators'',
       Multiselect [LStr ''units''] [LStr ''units''],
       kpi_card ?S dated_table (LStr ''units''),
       Subheader ''Visualizations'',
       Selectbox ''bar'' [LStr ''units''],
       PlotlyChart (BarFig (head 20 dated_table) (LStr ''units'')),
       Selectbox ''line'' [LStr ''units''],
       PlotlyChart (LineFig (head 50 dated_table) (LStr ''units'')),
       Selectbox ''hist'' [LStr ''units''],
       PlotlyChart (HistFig dated_table (LStr ''units'')),
       Selectbox ''pie_cat'' [LStr ''region''],
       Selectbox ''pie_val'' [LStr ''units''],
       PlotlyChart (PieFig (nlargest 10 (groupby_sum ?S dated_table (LStr ''region'') (LStr ''units'')))
         (LStr ''region'') (LStr ''units'')),
       Subheader ''Summary Statistics'',
       SummaryTable (summary_statistics ?S dated_table [LStr ''units''])]"
    unfolding dashboard_def dated_columns Let_def
    by (simp add: kpi_cards_def show_kpi_def bar_panel_def line_panel_def hist_panel_def
        pie_panel_def summary_panel_def dated_columns r seq_def emit_def
        multiselect_def selectbox_def plotly_chart_def px_def
        create_bar_chart_def create_line_chart_def create_histogram_def create_pie_chart_def
        Let_def)
  show "Selectbox ''bar'' [LStr ''units''] \<in> set (fst (dashboard ?S dated_table))"
    "Selectbox ''pie_cat'' [LStr ''region''] \<in> set (fst (dashboard ?S dated_table))"
    unfolding d by simp_all
qed

theorem silent_drop_witness:
  "uploaded_file (quiet_session dated_table) = Some ''kpi.xlsx''
   \<and> load_excel_data (quiet_session dated_table) ''kpi.xlsx'' = Inr dated_table
   \<and> distinct (map fst (columns dated_table))
   \<and> (LStr ''day'', Datetime64) \<in> set (columns dated_table)
   \<and> LStr ''day'' \<notin> set (numeric_columns dated_table)
   \<and> LStr ''day'' \<notin> set (categorical_cols dated_table)
   \<and> Selectbox ''bar'' [LStr ''units''] \<in> set (app (quiet_session dated_table))
   \<and> Selectbox ''pie_cat'' [LStr ''region''] \<in> set (app (quiet_session dated_table))
   \<and> list_all (\<lambda>e. \<not> offers e (LStr ''day'')) (app (quiet_session dated_table))"
proof -
  let ?S = "quiet_session dated_table"
  have u: "uploaded_file ?S = Some ''kpi.xlsx''"
    by (simp add: quiet_session_def)
  have l: "load_excel_data ?S ''kpi.xlsx'' = Inr dated_table"
    by (simp add: quiet_session_def load_excel_data_def)
  have d: "distinct (map fst (columns dated_table))"
    by (simp add: dated_table_def sales_table_def)
  have m: "(LStr ''day'', Datetime64) \<in> set (columns dated_table)"
    by (simp add: dated_table_def)
  have r: "limit_rows dated_table = ([], dated_table)"
    by (simp add: limit_rows_def len_def dated_table_def sales_table_def)
  have p: "preview_raises ?S (head 10 dated_table) = None"
    by (simp add: quiet_session_def)
  have "snd (file_info ?S dated_table) = None"
    by (simp add: file_info_shown [OF p] emit_def)
  then have "set (fst (dashboard ?S dated_table)) \<subseteq> set (fst (try_body ?S ''kpi.xlsx''))"
    unfolding try_body_loaded [OF l] r by (simp add: seq_emit_nothing fst_seq)
  then have w: "Selectbox ''bar'' [LStr ''units''] \<in> set (app ?S)"
    "Selectbox ''pie_cat'' [LStr ''region''] \<in> set (app ?S)"
    using dated_selectors set_app_shown [OF u] by blast+
  note s = silent_drop [OF u l d]
  have s1: "LStr ''day'' \<notin> set (numeric_columns dated_table)"
    and s2: "LStr ''day'' \<notin> set (categorical_cols dated_table)"
    and s3: "list_all (\<lambda>e. \<not> offers e (LStr ''day'')) (app ?S)"
    using s m by blast+
  show ?thesis
    by (intro conjI u l d m s1 s2 w s3)
qed


lemma shift_columns:
  "numeric_columns shift_table = [LStr ''shift'']"
  "categorical_cols shift_table = [LStr ''crew'']"
  by (simp_all add: shift_table_def numeric_columns_def categorical_cols_def
      columns_tolist_def select_dtypes_def)

lemma shift_dashboard:
  "dashboard (duration_session shift_table) shift_table =
     ([Subheader ''Key Performance Indicators'',
       Multiselect [LStr ''shift''] [LStr ''shift'']],
      Some (Exception ''unsupported format string passed to Timedelta.__format__''))"
proof -
  let ?S = "duration_session shift_table"
  have k: "kpi_choice ?S = None"
    by (simp add: duration_session_def quiet_session_def)
  have m: "metric_raises ?S shift_table (LStr ''shift'')
      = Some (Exception ''unsupported format string passed to Timedelta.__format__'')"
    by (simp add: duration_session_def quiet_session_def dtype_of_def shift_table_def)
  have "kpi_cards ?S shift_table [LStr ''shift''] =
     ([Subheader ''Key Performance Indicators'',
       Multiselect [LStr ''shift''] [LStr ''shift'']],
      Some (Exception ''unsupported format string passed to Timedelta.__format__''))"
    by (simp add: kpi_cards_def multiselect_def k show_kpi_def m seq_def emit_def raise_def
        Let_def)
  then show ?thesis
    by (simp add: dashboard_def shift_columns seq_def Let_def)
qed

text \<open>
  Claim C6 as stated does not hold. A column of durations holds values that are
  neither numbers nor text, but its dtype \<^verbatim>\<open>timedelta64\<close> is one that \<^verbatim>\<open>np.number\<close>
  selects: in \<open>shift_table\<close> the column \<open>shift\<close> is the numeric list, the KPI
  multiselect offers it and selects it by default, and its KPI card is the first thing
  the page tries to show for it; formatting the duration raises, so the page ends with
  the error message and the hint.
\<close>

theorem silent_drop_counterexample:
  "series shift_table (LStr ''shift'') = [Other ''0 days 08:00:00'', Other ''0 days 10:30:00'']
   \<and> numeric_columns shift_table = [LStr ''shift'']
   \<and> offers (Multiselect [LStr ''shift''] [LStr ''shift'']) (LStr ''shift'')
   \<and> app (duration_session shift_table) =
       [Title, Intro, FileUploader,
        Success 2 2, DataPreview (head 10 shift_table),
        Metric ''Total Rows'' 2, Metric ''Total Columns'' 2, Metric ''Numeric Columns'' 1,
        Subheader ''Configure Your KPIs'',
        Subheader ''Key Performance Indicators'',
        Multiselect [LStr ''shift''] [LStr ''shift''],
        ErrorMsg ''unsupported format string passed to Timedelta.__format__'',
        InfoFormat]"
proof -
  let ?S = "duration_session shift_table"
  have u: "uploaded_file ?S = Some ''kpi.xlsx''"
    by (simp add: duration_session_def quiet_session_def)
  have l: "load_excel_data ?S ''kpi.xlsx'' = Inr shift_table"
    by (simp add: duration_session_def quiet_session_def load_excel_data_def)
  have r: "limit_rows shift_table = ([], shift_table)"
    by (simp add: limit_rows_def len_def shift_table_def)
  have p: "preview_raises ?S (head 10 shift_table) = None"
    by (simp add: duration_session_def quiet_session_def)
  have f: "file_info ?S shift_table =
     ([Success 2 2, DataPreview (head 10 shift_table),
       Metric ''Total Rows'' 2, Metric ''Total Columns'' 2, Metric ''Numeric Columns'' 1,
       Subheader ''Configure Your KPIs''], None)"
    unfolding file_info_shown [OF p]
    by (simp add: emit_def len_def select_dtypes_def shift_table_def)
  have s: "series shift_table (LStr ''shift'')
      = [Other ''0 days 08:00:00'', Other ''0 days 10:30:00'']"
    by (simp add: series_def shift_table_def shift_row_def)
  have page: "app ?S =
       [Title, Intro, FileUploader,
        Success 2 2, DataPreview (head 10 shift_table),
        Metric ''Total Rows'' 2, Metric ''Total Columns'' 2, Metric ''Numeric Columns'' 1,
        Subheader ''Configure Your KPIs'',
        Subheader ''Key Performance Indicators'',
        Multiselect [LStr ''shift''] [LStr ''shift''],
        ErrorMsg ''unsupported format string passed to Timedelta.__format__'',
        InfoFormat]"
    unfolding app_uploaded [OF u] try_body_loaded [OF l] r
    by (simp add: shift_dashboard f seq_def emit_def handler_def)
  have o: "offers (Multiselect [LStr ''shift''] [LStr ''shift'']) (LStr ''shift'')"
    by simp
  show ?thesis
    by (intro conjI s shift_columns(1) o page)
qed


section \<open>A table without numeric columns\<close>

lemma numeric_columns_cong:
  "columns df' = columns df \<Longrightarrow> numeric_columns df' = numeric_columns df"
  by (simp add: numeric_columns_def columns_tolist_def select_dtypes_def)

lemma plain_elements:
  "list_all (\<lambda>e. \<not> analysis_element e) (fst (limit_rows loaded))"
  by (simp add: limit_rows_def)

text \<open>
  Claim C8, as amended. When the loaded table has no numeric column, no KPI selector
  or card, no chart selector or chart and no summary table is on the page, whatever
  else happens. What is on the page depends on the preview of the first ten rows, which
  comes before the metrics. If showing the preview does not raise, the page is: the
  header, the truncation advisory if the table was cut, the success message, the
  preview, the three metrics (the numeric count being 0), the configuration heading and
  the no-numeric-columns warning, in this order and nothing else. If it raises an
  exception of class \<^verbatim>\<open>Exception\<close>, the page is the header, the advisory, the success
  message, the error message and the hint: neither the metrics nor the warning are
  shown. If it raises any other exception the page stops after the success message
  and the exception leaves the script.
\<close>

theorem no_numeric_columns:
  assumes "uploaded_file S = Some uploaded"
    and "load_excel_data S uploaded = Inr loaded"
    and "numeric_columns loaded = []"
  shows "(preview_raises S (head 10 (snd (limit_rows loaded))) = None \<longrightarrow>
           app S =
             [Title, Intro, FileUploader] @ fst (limit_rows loaded) @
             [Success (len (snd (limit_rows loaded))) (length (columns loaded)),
              DataPreview (head 10 (snd (limit_rows loaded))),
              Metric ''Total Rows'' (len (snd (limit_rows loaded))),
              Metric ''Total Columns'' (length (columns loaded)),
              Metric ''Numeric Columns'' 0,
              Subheader ''Configure Your KPIs'',
              WarningNoNumeric]
           \<and> WarningNoNumeric \<in> set (app S)
           \<and> escaped S = None)
       \<and> (\<forall>msg. preview_raises S (head 10 (snd (limit_rows loaded))) = Some (Exception msg) \<longrightarrow>
           app S =
             [Title, Intro, FileUploader] @ fst (limit_rows loaded) @
             [Success (len (snd (limit_rows loaded))) (length (columns loaded)),
              ErrorMsg msg, InfoFormat]
           \<and> escaped S = None)
       \<and> (\<forall>msg. preview_raises S (head 10 (snd (limit_rows loaded))) = Some (BaseException msg) \<longrightarrow>
           app S =
             [Title, Intro, FileUploader] @ fst (limit_rows loaded) @
             [Success (len (snd (limit_rows loaded))) (length (columns loaded))]
           \<and> escaped S = Some (BaseException msg))
       \<and> list_all (\<lambda>e. \<not> analysis_element e) (app S)"
proof -
  let ?df = "snd (limit_rows loaded)"
  let ?adv = "fst (limit_rows loaded)"
  have n: "numeric_columns ?df = []"
    using assms(3) numeric_columns_cong [OF limit_rows_columns] by simp
  then have z: "length (columns (select_dtypes np_number ?df)) = 0"
    by (simp add: numeric_columns_def columns_tolist_def)
  have d: "dashboard S ?df = emit [WarningNoNumeric]"
    by (simp add: dashboard_def n)
  note tb = try_body_loaded [OF assms(2)]
  have c: "columns ?df = columns loaded"
    by (rule limit_rows_columns)
  have a: "app S =
             [Title, Intro, FileUploader] @ ?adv @
             [Success (len ?df) (length (columns loaded)),
              DataPreview (head 10 ?df),
              Metric ''Total Rows'' (len ?df),
              Metric ''Total Columns'' (length (columns loaded)),
              Metric ''Numeric Columns'' 0,
              Subheader ''Configure Your KPIs'',
              WarningNoNumeric]
           \<and> WarningNoNumeric \<in> set (app S)
           \<and> escaped S = None"
    if p: "preview_raises S (head 10 ?df) = None"
    unfolding app_uploaded [OF assms(1)] escaped_uploaded [OF assms(1)] tb d
      file_info_shown [OF p] z c
    by (simp add: seq_def emit_def handler_def)
  have b: "app S = [Title, Intro, FileUploader] @ ?adv @
             [Success (len ?df) (length (columns loaded)), ErrorMsg msg, InfoFormat]
           \<and> escaped S = None"
    if p: "preview_raises S (head 10 ?df) = Some (Exception msg)" for msg
    unfolding app_uploaded [OF assms(1)] escaped_uploaded [OF assms(1)] tb d
      file_info_cut [OF p] c
    by (simp add: seq_def emit_def handler_def)
  have e: "app S = [Title, Intro, FileUploader] @ ?adv @
             [Success (len ?df) (length (columns loaded))]
           \<and> escaped S = Some (BaseException msg)"
    if p: "preview_raises S (head 10 ?df) = Some (BaseException msg)" for msg
    unfolding app_uploaded [OF assms(1)] escaped_uploaded [OF assms(1)] tb d
      file_info_cut [OF p] c
    by (simp add: seq_def emit_def handler_def)
  have none: "list_all (\<lambda>e. \<not> analysis_element e) (app S)"
  proof (cases "preview_raises S (head 10 ?df)")
    case None
    show ?thesis
      using a [OF None] plain_elements [of loaded] by simp
  next
    case (Some x)
    show ?thesis
    proof (cases x)
      case (Exception msg)
      then show ?thesis
        using b [of msg] Some plain_elements [of loaded] by simp
    next
      case (BaseException msg)
      then show ?thesis
        using e [of msg] Some plain_elements [of loaded] by simp
    qed
  qed
  show ?thesis
    using a b e none by blast
qed

theorem no_numeric_columns_witness:
  "uploaded_file (quiet_session roster_table) = Some ''kpi.xlsx''
   \<and> load_excel_data (quiet_session roster_table) ''kpi.xlsx'' = Inr roster_table
   \<and> numeric_columns roster_table = []
   \<and> preview_raises (quiet_session roster_table) (head 10 (snd (limit_rows roster_table))) = None
   \<and> app (quiet_session roster_table) =
       [Title, Intro, FileUploader,
        Success 2 2, DataPreview (head 10 roster_table),
        Metric ''Total Rows'' 2, Metric ''Total Columns'' 2, Metric ''Numeric Columns'' 0,
        Subheader ''Configure Your KPIs'', WarningNoNumeric]
   \<and> escaped (quiet_session roster_table) = None"
proof -
  let ?S = "quiet_session roster_table"
  have u: "uploaded_file ?S = Some ''kpi.xlsx''"
    by (simp add: quiet_session_def)
  have l: "load_excel_data ?S ''kpi.xlsx'' = Inr roster_table"
    by (simp add: quiet_session_def load_excel_data_def)
  have n: "numeric_columns roster_table = []"
    by (simp add: roster_table_def numeric_columns_def columns_tolist_def select_dtypes_def)
  have r: "limit_rows roster_table = ([], roster_table)"
    by (simp add: limit_rows_def len_def roster_table_def)
  have s: "len roster_table = 2" "length (columns roster_table) = 2"
    by (simp_all add: len_def roster_table_def)
  have p: "preview_raises ?S (head 10 (snd (limit_rows roster_table))) = None"
    by (simp add: quiet_session_def)
  note t = no_numeric_columns [OF u l n]
  have t1: "app ?S =
       [Title, Intro, FileUploader,
        Success 2 2, DataPreview (head 10 roster_table),
        Metric ''Total Rows'' 2, Metric ''Total Columns'' 2, Metric ''Numeric Columns'' 0,
        Subheader ''Configure Your KPIs'', WarningNoNumeric]"
    using t p unfolding r by (simp add: s)
  have t2: "escaped ?S = None"
    using t p by blast
  show ?thesis
    by (intro conjI u l n p t1 t2)
qed

text \<open>
  Claim C8 as stated does not hold. \<open>big_table\<close> has no numeric column: its only
  column holds an integer that does not fit 64 bits, so its dtype is \<^verbatim>\<open>object\<close>. Showing
  the preview of such a column raises, and the page is the header, the success message,
  the error message and the hint: the three metrics are not shown, and neither is the
  no-numeric-columns warning.
\<close>

theorem no_numeric_counterexample:
  "numeric_columns big_table = []
   \<and> app (overflow_session big_table) =
       [Title, Intro, FileUploader, Success 1 1,
        ErrorMsg ''int too big to convert'', InfoFormat]
   \<and> WarningNoNumeric \<notin> set (app (overflow_session big_table))
   \<and> Metric ''Total Rows'' 1 \<notin> set (app (overflow_session big_table))"
proof -
  let ?S = "overflow_session big_table"
  have u: "uploaded_file ?S = Some ''kpi.xlsx''"
    by (simp add: overflow_session_def quiet_session_def)
  have l: "load_excel_data ?S ''kpi.xlsx'' = Inr big_table"
    by (simp add: overflow_session_def quiet_session_def load_excel_data_def)
  have n: "numeric_columns big_table = []"
    by (simp add: big_table_def numeric_columns_def columns_tolist_def select_dtypes_def)
  have r: "limit_rows big_table = ([], big_table)"
    by (simp add: limit_rows_def len_def big_table_def)
  have p: "preview_raises ?S (head 10 big_table) = Some (Exception ''int too big to convert'')"
    by (simp add: overflow_session_def quiet_session_def)
  have s: "len big_table = 1" "length (columns big_table) = 1"
    by (simp_all add: len_def big_table_def)
  have page: "app ?S = [Title, Intro, FileUploader, Success 1 1,
        ErrorMsg ''int too big to convert'', InfoFormat]"
    unfolding app_uploaded [OF u] try_body_loaded [OF l] r
    by (simp add: file_info_cut [OF p] s seq_def emit_def handler_def)
  show ?thesis
    unfolding page using n by simp
qed


section \<open>The handler\<close>










end
